theory Spec2Isabelle
  imports Complex_Main
begin

section \<open>The persistent store\<close>

text \<open>
  The bot keeps all durable state in a relational store (\<^verbatim>\<open>utils/database.py\<close>). Each table is
  modelled as the list of its rows; a \<^verbatim>\<open>SELECT ... fetch='one'\<close> is \<^const>\<open>find\<close>, an
  \<^verbatim>\<open>UPDATE ... WHERE id = x\<close> maps over the rows, an \<^verbatim>\<open>INSERT\<close> appends. The \<^verbatim>\<open>FLOAT\<close> columns
  (prices, balances, lifetime spend) are modelled as exact real numbers: rounding of binary
  floating point is outside the model. Columns that are only rendered (description, image url)
  are left out.
\<close>

type_synonym money = real

text \<open>The values written to \<^verbatim>\<open>carts.status\<close>: \<^verbatim>\<open>'active'\<close>, \<^verbatim>\<open>'pending_payment'\<close>,
  \<^verbatim>\<open>'pending_manual_verification'\<close>, \<^verbatim>\<open>'paid'\<close>, \<^verbatim>\<open>'completed'\<close>, \<^verbatim>\<open>'closed'\<close>.\<close>

datatype cart_status =
  Active | PendingPayment | PendingManualVerification | Paid | Completed | Closed

text \<open>The values written to \<^verbatim>\<open>carts.payment_method\<close>: \<^verbatim>\<open>'paypal'\<close> and \<^verbatim>\<open>'crypto_<COIN>'\<close>.\<close>

datatype pay_method = PayPal | Crypto string

text \<open>One entry of the JSON object \<^verbatim>\<open>carts.cart_data\<close>: \<^verbatim>\<open>{quantity, price, name}\<close>. The object
  itself is a Python dict keyed by \<^verbatim>\<open>str(item['id'])\<close>; it is an association list in insertion
  order, keyed by the item id.\<close>

record line =
  quantity :: int
  price :: money
  name :: string

type_synonym cart_json = "(int \<times> line) list"

record item_row =
  item_id :: int
  item_name :: string
  item_price :: money
  item_quantity :: int
  item_message_id :: int
  item_channel_id :: int

record cart_row =
  cart_id :: int
  user_id :: int
  channel_id :: "int option"
  cart_data :: cart_json
  message_id :: "int option"
  invoice_message_id :: "int option"
  payment_id :: "string option"
  credit_applied :: money
  last_activity :: nat
  status :: cart_status
  payment_method :: "pay_method option"

record user_row =
  user_key :: int
  balance :: money
  lifetime_spent :: money
  delivery_value_handled :: money

datatype ticket_status = TicketOpen | TicketClosed

record ticket_row =
  ticket_id :: int
  ticket_user_id :: int
  ticket_channel_id :: int
  ticket_status :: ticket_status

record db =
  items :: "item_row list"
  carts :: "cart_row list"
  users :: "user_row list"
  tickets :: "ticket_row list"
  settings :: "(string \<times> string) list"
  analytics :: "(string \<times> int \<times> int) list"
  cart_seq :: int
  ticket_seq :: int

text \<open>What the user gets to see: interaction replies, channel messages and embeds. An exception
  that escapes a handler is \<open>Raised\<close>; the store keeps what was written before it.\<close>

datatype notice =
    ShopClosed
  | CartNotFound
  | AlreadyProcessed
  | PendingPaymentExists
  | MinimumNotMet money
  | InvoiceCanceled int string
  | PaymentLink int string
  | PaymentLinkError
  | SelectCoin
  | PriceUnavailable
  | WalletNotConfigured
  | CryptoInstructions int string money
  | ChannelNotFound
  | PendingVerification
  | NotPendingVerification
  | TransactionCanceled
  | PaymentSuccessful int
  | InsufficientStock
  | NoActiveCart
  | CartSummary int money
  | NotEnoughCredit
  | CreditApplied money money
  | CartArchived
  | SelectPaymentMethod
  | AlreadyOpenTicket
  | TicketCreated int
  | TicketClosedNotice
  | Raised string

section \<open>The world outside the store\<close>

text \<open>
  The chat platform, the payment gateway, the price oracle, the clock and the process
  environment are parameters of every operation: \<open>get_channel\<close> tells whether the bot finds a
  channel, \<open>new_channel_id\<close> and \<open>new_message_id\<close> are the ids the platform gives to the
  channel and the message an operation creates, \<open>purchase_minimum\<close> is
  \<^verbatim>\<open>SHOP_PURCHASE_MINIMUM\<close>. The gateway answers are what \<^verbatim>\<open>utils/payments.py\<close> returns:
  \<open>None\<close> on any transport failure, otherwise the decoded JSON object (here its string fields).
  Calls to the platform on a channel that was found are taken to succeed.
\<close>

record env =
  get_channel :: "int \<Rightarrow> bool"
  new_channel_id :: int
  new_message_id :: int
  utcnow :: nat
  purchase_minimum :: money
  create_payment :: "money \<Rightarrow> int \<Rightarrow> string option \<times> string option"
  get_payment_details :: "string \<Rightarrow> (string \<times> string) list option"
  capture_payment :: "string \<Rightarrow> (string \<times> string) list option"
  get_coin_price :: "string \<Rightarrow> money option"
  wallet_addresses :: "string \<Rightarrow> string option"

text \<open>\<^verbatim>\<open>bot.get_channel(cart['channel_id'])\<close>: no channel for a \<^verbatim>\<open>NULL\<close> id.\<close>

definition chan_found :: "env \<Rightarrow> int option \<Rightarrow> bool" where
  "chan_found e ch = (case ch of None \<Rightarrow> False | Some c \<Rightarrow> get_channel e c)"

text \<open>Python truth of an optional id (\<^verbatim>\<open>if cart_data.get('invoice_message_id')\<close>) and of an
  optional string (\<^verbatim>\<open>cart_data.get('payment_id')\<close>): \<^verbatim>\<open>None\<close>, \<^verbatim>\<open>0\<close> and \<^verbatim>\<open>''\<close> are false.\<close>

definition truthy_id :: "int option \<Rightarrow> bool" where
  "truthy_id x = (case x of None \<Rightarrow> False | Some n \<Rightarrow> n \<noteq> 0)"

definition truthy_str :: "string option \<Rightarrow> bool" where
  "truthy_str x = (case x of None \<Rightarrow> False | Some s \<Rightarrow> s \<noteq> [])"

section \<open>Store access\<close>

definition get_setting :: "string \<Rightarrow> db \<Rightarrow> string option" where
  "get_setting k d = map_of (settings d) k"

text \<open>\<^verbatim>\<open>UPDATE carts SET ... WHERE id = %s\<close>\<close>

definition update_cart :: "int \<Rightarrow> (cart_row \<Rightarrow> cart_row) \<Rightarrow> db \<Rightarrow> db" where
  "update_cart cid f d =
     d\<lparr>carts := map (\<lambda>c. if cart_id c = cid then f c else c) (carts d)\<rparr>"

text \<open>\<^verbatim>\<open>SELECT * FROM carts WHERE id = %s\<close> and \<^verbatim>\<open>... WHERE channel_id = %s\<close>, \<^verbatim>\<open>fetch='one'\<close>\<close>

definition cart_by_id :: "int \<Rightarrow> db \<Rightarrow> cart_row option" where
  "cart_by_id cid d = find (\<lambda>c. cart_id c = cid) (carts d)"

definition cart_by_channel :: "int \<Rightarrow> db \<Rightarrow> cart_row option" where
  "cart_by_channel ch d = find (\<lambda>c. channel_id c = Some ch) (carts d)"

text \<open>\<^verbatim>\<open>UPDATE items SET quantity = quantity + %s WHERE id = %s\<close>\<close>

definition add_stock :: "int \<Rightarrow> int \<Rightarrow> db \<Rightarrow> db" where
  "add_stock iid n d =
     d\<lparr>items := map (\<lambda>i. if item_id i = iid then i\<lparr>item_quantity := item_quantity i + n\<rparr> else i)
                   (items d)\<rparr>"

text \<open>\<^verbatim>\<open>SELECT ... FROM users WHERE id = %s\<close>\<close>

definition user_by_id :: "int \<Rightarrow> db \<Rightarrow> user_row option" where
  "user_by_id u d = find (\<lambda>r. user_key r = u) (users d)"

text \<open>\<^verbatim>\<open>UPDATE users SET balance = balance + %s WHERE id = %s\<close>\<close>

definition add_balance :: "int \<Rightarrow> money \<Rightarrow> db \<Rightarrow> db" where
  "add_balance u x d =
     d\<lparr>users := map (\<lambda>r. if user_key r = u then r\<lparr>balance := balance r + x\<rparr> else r) (users d)\<rparr>"

text \<open>\<^verbatim>\<open>INSERT INTO users (id, lifetime_spent) VALUES (%s, %s) ON DUPLICATE KEY UPDATE
  lifetime_spent = lifetime_spent + %s\<close>: the other columns of a new row take their defaults.\<close>

definition add_lifetime_spent :: "int \<Rightarrow> money \<Rightarrow> db \<Rightarrow> db" where
  "add_lifetime_spent u x d =
     (case user_by_id u d of
        None \<Rightarrow>
          d\<lparr>users := users d @
                [\<lparr>user_key = u, balance = 0, lifetime_spent = x, delivery_value_handled = 0\<rparr>]\<rparr>
      | Some _ \<Rightarrow>
          d\<lparr>users := map (\<lambda>r. if user_key r = u then r\<lparr>lifetime_spent := lifetime_spent r + x\<rparr>
                                else r) (users d)\<rparr>)"

text \<open>\<^verbatim>\<open>sum(i['quantity'] * i['price'] for i in cart.values())\<close>\<close>

definition cart_total :: "cart_json \<Rightarrow> money" where
  "cart_total cart = sum_list (map (\<lambda>(k, i). real_of_int (quantity i) * price i) cart)"

section \<open>Invoice cancellation and order completion (\<^verbatim>\<open>ui/views.py\<close>)\<close>

text \<open>\<^verbatim>\<open>cancel_invoice(cart_data, channel, reason)\<close>: acts only when the row it was handed carries
  an invoice reference.\<close>

definition cancel_invoice :: "cart_row \<Rightarrow> string \<Rightarrow> db \<Rightarrow> db \<times> notice list" where
  "cancel_invoice cart reason d =
     (if truthy_id (invoice_message_id cart) then
        (update_cart (cart_id cart)
           (\<lambda>c. c\<lparr>invoice_message_id := None, payment_id := None,
                  payment_method := None, status := Active\<rparr>) d,
         [InvoiceCanceled (cart_id cart) reason])
      else (d, []))"

text \<open>\<^verbatim>\<open>analytics_cog.log_event('purchase', item_id=int(item_id), user_id=...)\<close> for every key of
  the cart.\<close>

definition log_purchases :: "cart_row \<Rightarrow> db \<Rightarrow> db" where
  "log_purchases cart d =
     d\<lparr>analytics := analytics d @ map (\<lambda>(k, i). (''purchase'', k, user_id cart)) (cart_data cart)\<rparr>"

text \<open>\<^verbatim>\<open>process_paid_order(channel, cart_data, credit_spent=0)\<close>. It reads the row it was handed,
  not the store, and it reads neither \<^verbatim>\<open>status\<close> nor \<^verbatim>\<open>credit_applied\<close>.\<close>

definition process_paid_order :: "cart_row \<Rightarrow> money \<Rightarrow> db \<Rightarrow> db \<times> notice list" where
  "process_paid_order cart credit_spent d =
     (let total_price = cart_total (cart_data cart);
          real_money_spent = total_price - credit_spent;
          d1 = add_lifetime_spent (user_id cart) real_money_spent d;
          d2 = update_cart (cart_id cart) (\<lambda>c. c\<lparr>status := Paid\<rparr>) d1;
          d3 = log_purchases cart d2
      in (d3, [PaymentSuccessful (cart_id cart)]))"

section \<open>Webhook entry point (\<^verbatim>\<open>utils/webhook_server.py\<close>)\<close>

definition process_webhook_payment :: "env \<Rightarrow> int \<Rightarrow> string \<Rightarrow> db \<Rightarrow> db \<times> notice list" where
  "process_webhook_payment e cid st d =
     (case cart_by_id cid d of
        None \<Rightarrow> (d, [])
      | Some cart \<Rightarrow>
          if status cart \<in> set [Paid, Completed, Closed] then (d, [])
          else if \<not> chan_found e (channel_id cart) then (d, [])
          else if st \<in> set [''confirmed'', ''finished'', ''approved''] then
            process_paid_order cart 0 d
          else if st \<in> set [''failed'', ''refunded'', ''expired'', ''partially_paid''] then
            cancel_invoice cart
              (''Your payment has '' @ st @ ''. Please try again or contact support.'') d
          else (d, []))"

section \<open>Payment reconciliation loop (\<^verbatim>\<open>cogs/shop.py\<close>)\<close>

text \<open>\<^verbatim>\<open>WHERE status = 'pending_payment' AND payment_method = 'paypal' AND payment_id IS NOT NULL\<close>\<close>

definition pending_paypal :: "cart_row \<Rightarrow> bool" where
  "pending_paypal c \<longleftrightarrow>
     status c = PendingPayment \<and> payment_method c = Some PayPal \<and> payment_id c \<noteq> None"

text \<open>\<^verbatim>\<open>order_details.get('status') == 'APPROVED'\<close> on a non-empty answer, and
  \<^verbatim>\<open>capture_response and capture_response.get('status') == 'COMPLETED'\<close>.\<close>

definition order_approved :: "env \<Rightarrow> string \<Rightarrow> bool" where
  "order_approved e pid =
     (case get_payment_details e pid of
        None \<Rightarrow> False
      | Some order_details \<Rightarrow>
          order_details \<noteq> [] \<and> map_of order_details ''status'' = Some ''APPROVED'')"

definition capture_completed :: "env \<Rightarrow> string \<Rightarrow> bool" where
  "capture_completed e pid =
     (case capture_payment e pid of
        None \<Rightarrow> False
      | Some capture_response \<Rightarrow>
          capture_response \<noteq> [] \<and> map_of capture_response ''status'' = Some ''COMPLETED'')"

definition capture_failed_reason :: string where
  "capture_failed_reason =
     ''There was an issue finalizing your PayPal payment. Please contact support.''"

text \<open>The body of the loop over the selected rows. The row is the one selected at the start of
  the tick. The query leaves no row without a payment reference.\<close>

definition poll_cart :: "env \<Rightarrow> cart_row \<Rightarrow> db \<Rightarrow> db \<times> notice list" where
  "poll_cart e cart d =
     (if \<not> chan_found e (channel_id cart) then (d, [])
      else case payment_id cart of
        None \<Rightarrow> (d, [])
      | Some pid \<Rightarrow>
          if order_approved e pid then
            (if capture_completed e pid then process_paid_order cart 0 d
             else cancel_invoice cart capture_failed_reason d)
          else (d, []))"

fun poll_loop :: "env \<Rightarrow> cart_row list \<Rightarrow> db \<Rightarrow> db \<times> notice list" where
  "poll_loop e [] d = (d, [])"
| "poll_loop e (cart # rest) d =
     (let (d1, n1) = poll_cart e cart d;
          (d2, n2) = poll_loop e rest d1
      in (d2, n1 @ n2))"

definition check_pending_payments :: "env \<Rightarrow> db \<Rightarrow> db \<times> notice list" where
  "check_pending_payments e d = poll_loop e (filter pending_paypal (carts d)) d"

text \<open>The row as one pass of the loop body, run in a channel that is found, leaves it in the
  store: the three outcomes of \<^const>\<open>poll_cart\<close> read off its branches.\<close>

definition reconciled :: "env \<Rightarrow> cart_row \<Rightarrow> cart_row" where
  "reconciled e c =
     (case payment_id c of
        None \<Rightarrow> c
      | Some pid \<Rightarrow>
          if \<not> order_approved e pid then c
          else if capture_completed e pid then c\<lparr>status := Paid\<rparr>
          else if truthy_id (invoice_message_id c) then
            c\<lparr>invoice_message_id := None, payment_id := None, payment_method := None,
              status := Active\<rparr>
          else c)"

section \<open>Checkout and invoices (\<^verbatim>\<open>ui/views.py\<close>)\<close>

definition shop_closed :: "db \<Rightarrow> bool" where
  "shop_closed d \<longleftrightarrow> get_setting ''shop_status'' d = Some ''closed''"

text \<open>\<^verbatim>\<open>CancelInvoiceView.cancel_transaction\<close>\<close>

definition cancel_transaction :: "env \<Rightarrow> int \<Rightarrow> db \<Rightarrow> db \<times> notice list" where
  "cancel_transaction e cid d =
     (case cart_by_id cid d of
        None \<Rightarrow> (d, [CartNotFound])
      | Some cart \<Rightarrow>
          if chan_found e (channel_id cart) then
            (let (d1, n) = cancel_invoice cart ''You manually canceled the transaction.'' d
             in (d1, n @ [TransactionCanceled]))
          else (d, [ChannelNotFound]))"

text \<open>\<^verbatim>\<open>coin_id_map.get(selected_coin, selected_coin.lower())\<close>\<close>

definition lower_char :: "char \<Rightarrow> char" where
  "lower_char c =
     (let n = (of_char c :: nat) in if 65 \<le> n \<and> n \<le> 90 then char_of (n + 32) else c)"

definition coin_id_of :: "string \<Rightarrow> string" where
  "coin_id_of selected_coin =
     (if selected_coin = ''BTC'' then ''bitcoin''
      else if selected_coin = ''ETH'' then ''ethereum''
      else if selected_coin = ''LTC'' then ''litecoin''
      else map lower_char selected_coin)"

text \<open>\<^verbatim>\<open>CryptoCoinSelectionView.coin_select\<close>. The view carries the row and the total it was built
  with; only the row's \<^verbatim>\<open>id\<close> and \<^verbatim>\<open>channel_id\<close> are read.\<close>

definition coin_select :: "env \<Rightarrow> cart_row \<Rightarrow> money \<Rightarrow> string \<Rightarrow> db \<Rightarrow> db \<times> notice list" where
  "coin_select e cart total_price selected_coin d =
     (case get_coin_price e (coin_id_of selected_coin) of
        None \<Rightarrow> (d, [PriceUnavailable])
      | Some price_usd \<Rightarrow>
          if price_usd = 0 then (d, [PriceUnavailable])
          else if \<not> truthy_str (wallet_addresses e selected_coin) then (d, [WalletNotConfigured])
          else
            let amount_crypto = total_price / price_usd;
                d1 = update_cart (cart_id cart)
                       (\<lambda>c. c\<lparr>payment_method := Some (Crypto selected_coin),
                              status := PendingPayment, last_activity := utcnow e\<rparr>) d
            in if chan_found e (channel_id cart) then
                 (update_cart (cart_id cart)
                    (\<lambda>c. c\<lparr>invoice_message_id := Some (new_message_id e)\<rparr>) d1,
                  [CryptoInstructions (cart_id cart) selected_coin amount_crypto])
               else (d1, [ChannelNotFound]))"

text \<open>\<^verbatim>\<open>CryptoConfirmationView.confirm_payment\<close> and \<^verbatim>\<open>.cancel_payment\<close>\<close>

definition confirm_payment :: "int \<Rightarrow> db \<Rightarrow> db \<times> notice list" where
  "confirm_payment cid d =
     (update_cart cid (\<lambda>c. c\<lparr>status := PendingManualVerification\<rparr>) d, [PendingVerification])"

definition cancel_payment :: "int \<Rightarrow> db \<Rightarrow> db \<times> notice list" where
  "cancel_payment cid d =
     (case cart_by_id cid d of
        None \<Rightarrow> (d, [TransactionCanceled])
      | Some cart \<Rightarrow>
          (let (d1, n) = cancel_invoice cart ''You manually canceled the transaction.'' d
           in (d1, n @ [TransactionCanceled])))"

text \<open>\<^verbatim>\<open>PaymentMethodView.crypto_checkout\<close>\<close>

definition crypto_checkout :: "env \<Rightarrow> int \<Rightarrow> db \<Rightarrow> db \<times> notice list" where
  "crypto_checkout e chan d =
     (case cart_by_channel chan d of
        None \<Rightarrow> (d, [CartNotFound])
      | Some cart_data0 \<Rightarrow>
          if status cart_data0 \<in> set [Paid, Completed, Closed] then (d, [AlreadyProcessed])
          else if status cart_data0 = PendingPayment then (d, [PendingPaymentExists])
          else if shop_closed d then (d, [ShopClosed])
          else
            let total_price = cart_total (cart_data cart_data0)
            in if total_price < purchase_minimum e then (d, [MinimumNotMet (purchase_minimum e)])
               else if truthy_id (invoice_message_id cart_data0)
                       \<and> chan_found e (channel_id cart_data0) then
                 (let (d1, n) = cancel_invoice cart_data0 ''A new payment method was selected.'' d
                  in (d1, n @ [SelectCoin]))
               else (d, [SelectCoin]))"

text \<open>\<^verbatim>\<open>PaymentMethodView.handle_checkout(interaction, method)\<close>, reached from the PayPal
  button.\<close>

definition url_text :: "string option \<Rightarrow> string" where
  "url_text u = (case u of None \<Rightarrow> [] | Some s \<Rightarrow> s)"

definition handle_checkout :: "env \<Rightarrow> int \<Rightarrow> pay_method \<Rightarrow> db \<Rightarrow> db \<times> notice list" where
  "handle_checkout e chan meth d =
     (case cart_by_channel chan d of
        None \<Rightarrow> (d, [CartNotFound])
      | Some cart_data0 \<Rightarrow>
          if status cart_data0 \<in> set [Paid, Completed, Closed] then (d, [AlreadyProcessed])
          else if status cart_data0 = PendingPayment then (d, [PendingPaymentExists])
          else if shop_closed d \<and> \<not> truthy_str (payment_id cart_data0) then (d, [ShopClosed])
          else
            let total_price = cart_total (cart_data cart_data0)
            in if total_price < purchase_minimum e then (d, [MinimumNotMet (purchase_minimum e)])
               else
                 let (d1, n1) =
                       (if truthy_id (invoice_message_id cart_data0)
                           \<and> chan_found e (channel_id cart_data0)
                        then cancel_invoice cart_data0
                               ''A new payment method was selected or a new invoice was generated.'' d
                        else (d, []))
                 in case cart_by_channel chan d1 of
                      None \<Rightarrow> (d1, n1 @ [CartNotFound])
                    | Some cart_data1 \<Rightarrow>
                        (let (approval_url, pid) =
                               create_payment e total_price (cart_id cart_data1)
                         in if truthy_str approval_url \<and> truthy_str pid then
                              let d2 = update_cart (cart_id cart_data1)
                                         (\<lambda>c. c\<lparr>payment_id := pid, payment_method := Some meth,
                                                status := PendingPayment,
                                                last_activity := utcnow e\<rparr>) d1;
                                  d3 = update_cart (cart_id cart_data1)
                                         (\<lambda>c. c\<lparr>invoice_message_id := Some (new_message_id e)\<rparr>) d2
                              in (d3, n1 @ [PaymentLink (cart_id cart_data1) (url_text approval_url)])
                            else (d1, n1 @ [PaymentLinkError])))"

text \<open>\<^verbatim>\<open>LeaveReviewView.close_cart\<close> and \<^verbatim>\<open>DeleteCartView.delete_cart\<close>\<close>

definition final_close_cart :: "int \<Rightarrow> db \<Rightarrow> db \<times> notice list" where
  "final_close_cart chan d =
     (case cart_by_channel chan d of
        None \<Rightarrow> (d, [])
      | Some cart \<Rightarrow> (update_cart (cart_id cart) (\<lambda>c. c\<lparr>status := Completed\<rparr>) d, [CartArchived]))"

definition delete_cart :: "int \<Rightarrow> db \<Rightarrow> db \<times> notice list" where
  "delete_cart chan d = (d\<lparr>carts := filter (\<lambda>c. channel_id c \<noteq> Some chan) (carts d)\<rparr>, [])"

section \<open>Cart contents and stock (\<^verbatim>\<open>ShopItemView.handle_cart_action\<close>)\<close>

text \<open>\<^verbatim>\<open>cart[item_id] = v\<close> and \<^verbatim>\<open>del cart[item_id]\<close> on the dict\<close>

fun dict_set :: "'k \<Rightarrow> 'v \<Rightarrow> ('k \<times> 'v) list \<Rightarrow> ('k \<times> 'v) list" where
  "dict_set k v [] = [(k, v)]"
| "dict_set k v ((k', v') # kvs) =
     (if k' = k then (k, v) # kvs else (k', v') # dict_set k v kvs)"

definition dict_del :: "'k \<Rightarrow> ('k \<times> 'v) list \<Rightarrow> ('k \<times> 'v) list" where
  "dict_del k kvs = filter (\<lambda>(k', v). k' \<noteq> k) kvs"

text \<open>\<^verbatim>\<open>INSERT INTO carts (user_id, cart_data, last_activity) VALUES (%s, '{}', %s)\<close>: the id is
  the next value of the table's counter, the other columns take their defaults.\<close>

definition insert_cart :: "int \<Rightarrow> nat \<Rightarrow> db \<Rightarrow> int \<times> db" where
  "insert_cart uid t d =
     (cart_seq d,
      d\<lparr>carts := carts d @
           [\<lparr>cart_id = cart_seq d, user_id = uid, channel_id = None, cart_data = [],
             message_id = None, invoice_message_id = None, payment_id = None,
             credit_applied = 0, last_activity = t, status = Active, payment_method = None\<rparr>],
        cart_seq := cart_seq d + 1\<rparr>)"

text \<open>The new contents of the cart: the line of the item is replaced on an add (with the item's
  current price and name), reduced in place on a remove and dropped when nothing is left.\<close>

definition changed_cart :: "bool \<Rightarrow> item_row \<Rightarrow> int \<Rightarrow> cart_json \<Rightarrow> cart_json" where
  "changed_cart add item qty cart =
     (if add then
        dict_set (item_id item)
          \<lparr>quantity = (case map_of cart (item_id item) of None \<Rightarrow> 0 | Some l \<Rightarrow> quantity l) + qty,
           price = item_price item, name = item_name item\<rparr> cart
      else
        case map_of cart (item_id item) of
          None \<Rightarrow> cart
        | Some l \<Rightarrow>
            if quantity l - qty \<le> 0 then dict_del (item_id item) cart
            else dict_set (item_id item) (l\<lparr>quantity := quantity l - qty\<rparr>) cart)"

text \<open>\<^verbatim>\<open>handle_cart_action(interaction, add)\<close> for the user \<open>uid\<close> pressing the button under the
  item message \<open>msg\<close> and entering \<open>qty\<close> (already parsed by \<^verbatim>\<open>int\<close>). The steps follow the
  source's order: the cart row is looked up (and created) before the stock is checked, and the
  stock is written before the cart is. Reading a field of a missing row (\<^verbatim>\<open>item['id']\<close>,
  \<^verbatim>\<open>cart_data['message_id']\<close>) raises \<^verbatim>\<open>TypeError\<close>; sending to or fetching from a cart channel
  that the bot does not find raises \<^verbatim>\<open>AttributeError\<close>, inside \<^verbatim>\<open>cancel_invoice\<close> or after it,
  in both cases before the cart row is written.\<close>

definition handle_cart_action :: "env \<Rightarrow> int \<Rightarrow> int \<Rightarrow> int \<Rightarrow> bool \<Rightarrow> db \<Rightarrow> db \<times> notice list" where
  "handle_cart_action e uid msg qty add d =
     (if shop_closed d then (d, [ShopClosed])
      else
        let item = find (\<lambda>i. item_message_id i = msg) (items d);
            (d1, cart_data1, cart_channel) =
              (case find (\<lambda>c. user_id c = uid \<and> status c = Active) (carts d) of
                 None \<Rightarrow>
                   (let (cid, d') = insert_cart uid (utcnow e) d;
                        d'' = update_cart cid (\<lambda>c. c\<lparr>channel_id := Some (new_channel_id e)\<rparr>) d'
                    in (d'', cart_by_id cid d'', True))
               | Some c \<Rightarrow> (d, Some c, chan_found e (channel_id c)))
        in if add \<and> (case item of None \<Rightarrow> True | Some it \<Rightarrow> item_quantity it < qty) then
             (d1, [InsufficientStock])
           else if \<not> add \<and> cart_data1 = None then (d1, [NoActiveCart])
           else case item of
             None \<Rightarrow> (d1, [Raised ''TypeError''])
           | Some it \<Rightarrow>
               let d2 = add_stock (item_id it) (if add then - qty else qty) d1
               in case cart_data1 of
                    None \<Rightarrow> (d2, [Raised ''TypeError''])
                  | Some cart_row \<Rightarrow>
                      if \<not> cart_channel then (d2, [Raised ''AttributeError''])
                      else
                        let (d3, n3) = cancel_invoice cart_row ''Your cart was modified.'' d2;
                            cart = changed_cart add it qty (cart_data cart_row);
                            total_price = cart_total cart
                        in if \<not> truthy_id (message_id cart_row) then
                             (update_cart (cart_id cart_row)
                                (\<lambda>c. c\<lparr>message_id := Some (new_message_id e),
                                       cart_data := cart\<rparr>) d3,
                              n3 @ [CartSummary (cart_id cart_row) total_price])
                           else
                             (update_cart (cart_id cart_row)
                                (\<lambda>c. c\<lparr>cart_data := cart, last_activity := utcnow e\<rparr>) d3,
                              n3 @ [CartSummary (cart_id cart_row) total_price]))"

section \<open>Store credit and closing a cart (\<^verbatim>\<open>CartView\<close>)\<close>

text \<open>\<^verbatim>\<open>CartView.apply_credit\<close> for the user \<open>uid\<close> in the cart channel \<open>chan\<close>, with the amount
  already parsed by \<^verbatim>\<open>float\<close>.\<close>

definition apply_credit :: "int \<Rightarrow> int \<Rightarrow> money \<Rightarrow> db \<Rightarrow> db \<times> notice list" where
  "apply_credit uid chan amount_to_apply d =
     (if shop_closed d then (d, [ShopClosed])
      else case user_by_id uid d of
        None \<Rightarrow> (d, [NotEnoughCredit])
      | Some user_data \<Rightarrow>
          if amount_to_apply > balance user_data then (d, [NotEnoughCredit])
          else case cart_by_channel chan d of
            None \<Rightarrow> (d, [Raised ''TypeError''])
          | Some cart_row \<Rightarrow>
              let total_price = cart_total (cart_data cart_row);
                  credit_to_apply = min amount_to_apply total_price;
                  d1 = add_balance uid (- credit_to_apply) d;
                  d2 = update_cart (cart_id cart_row)
                         (\<lambda>c. c\<lparr>credit_applied := credit_applied c + credit_to_apply\<rparr>) d1;
                  n = [CreditApplied credit_to_apply (total_price - credit_to_apply)]
              in if total_price - credit_to_apply \<le> 0 then
                   (let (d3, n3) = process_paid_order cart_row credit_to_apply d2 in (d3, n @ n3))
                 else (d2, n))"

text \<open>\<^verbatim>\<open>CartView.checkout\<close> only answers; it writes nothing.\<close>

definition checkout :: "int \<Rightarrow> db \<Rightarrow> db \<times> notice list" where
  "checkout chan d =
     (if shop_closed d
         \<and> \<not> (case cart_by_channel chan d of None \<Rightarrow> False | Some c \<Rightarrow> truthy_str (payment_id c))
      then (d, [ShopClosed]) else (d, [SelectPaymentMethod]))"

text \<open>\<^verbatim>\<open>for item_id, i in cart.items(): UPDATE items SET quantity = quantity + i['quantity']\<close>\<close>

fun restore_stock :: "cart_json \<Rightarrow> db \<Rightarrow> db" where
  "restore_stock [] d = d"
| "restore_stock ((k, i) # rest) d = restore_stock rest (add_stock k (quantity i) d)"

text \<open>\<^verbatim>\<open>CartView.close_cart\<close>. The status of the row is not read.\<close>

definition close_cart :: "int \<Rightarrow> db \<Rightarrow> db \<times> notice list" where
  "close_cart chan d =
     (case cart_by_channel chan d of
        None \<Rightarrow> (d, [])
      | Some cart_row \<Rightarrow>
          let d1 = restore_stock (cart_data cart_row) d;
              d2 = (if credit_applied cart_row > 0
                    then add_balance (user_id cart_row) (credit_applied cart_row) d1 else d1);
              d3 = update_cart (cart_id cart_row) (\<lambda>c. c\<lparr>status := Closed\<rparr>) d2
          in (d3, [CartArchived]))"

section \<open>Admin commands and sweeps on carts (\<^verbatim>\<open>cogs/shop.py\<close>)\<close>

definition complete_crypto_order :: "env \<Rightarrow> int \<Rightarrow> db \<Rightarrow> db \<times> notice list" where
  "complete_crypto_order e cid d =
     (case cart_by_id cid d of
        None \<Rightarrow> (d, [CartNotFound])
      | Some cart_row \<Rightarrow>
          if status cart_row \<noteq> PendingManualVerification then (d, [NotPendingVerification])
          else if \<not> chan_found e (channel_id cart_row) then (d, [ChannelNotFound])
          else process_paid_order cart_row 0 d)"

definition purge_closed_carts :: "db \<Rightarrow> db \<times> notice list" where
  "purge_closed_carts d =
     (d\<lparr>carts := filter (\<lambda>c. status c \<notin> set [Closed, Completed]) (carts d)\<rparr>, [])"

definition wipe_all_carts :: "db \<Rightarrow> db \<times> notice list" where
  "wipe_all_carts d = (d\<lparr>carts := []\<rparr>, [])"

section \<open>Tickets (\<^verbatim>\<open>TicketCreationView\<close>, \<^verbatim>\<open>TicketChannelView\<close>, \<^verbatim>\<open>cogs/ticket.py\<close>)\<close>

text \<open>\<^verbatim>\<open>SELECT * FROM tickets WHERE user_id = %s AND status = 'open'\<close>\<close>

definition open_ticket_of :: "int \<Rightarrow> db \<Rightarrow> ticket_row option" where
  "open_ticket_of uid d =
     find (\<lambda>t. ticket_user_id t = uid \<and> ticket_status t = TicketOpen) (tickets d)"

definition open_ticket :: "env \<Rightarrow> int \<Rightarrow> db \<Rightarrow> db \<times> notice list" where
  "open_ticket e uid d =
     (case open_ticket_of uid d of
        Some t \<Rightarrow> (d, [AlreadyOpenTicket])
      | None \<Rightarrow>
          (d\<lparr>tickets := tickets d @
                [\<lparr>ticket_id = ticket_seq d, ticket_user_id = uid,
                  ticket_channel_id = new_channel_id e, ticket_status = TicketOpen\<rparr>],
             ticket_seq := ticket_seq d + 1\<rparr>,
           [TicketCreated (new_channel_id e)]))"

definition close_ticket :: "int \<Rightarrow> db \<Rightarrow> db \<times> notice list" where
  "close_ticket chan d =
     (d\<lparr>tickets := map (\<lambda>t. if ticket_channel_id t = chan then t\<lparr>ticket_status := TicketClosed\<rparr>
                              else t) (tickets d)\<rparr>,
      [TicketClosedNotice])"

definition delete_ticket :: "int \<Rightarrow> db \<Rightarrow> db \<times> notice list" where
  "delete_ticket chan d =
     (d\<lparr>tickets := filter (\<lambda>t. ticket_channel_id t \<noteq> chan) (tickets d)\<rparr>, [])"

definition purge_closed_tickets :: "db \<Rightarrow> db \<times> notice list" where
  "purge_closed_tickets d =
     (d\<lparr>tickets := filter (\<lambda>t. ticket_status t \<noteq> TicketClosed) (tickets d)\<rparr>, [])"

section \<open>Runs of the system\<close>

text \<open>Every operation above that writes to the carts or the tickets table is an action; a run
  applies actions one after the other, each in the world it meets, starting from the store that
  \<^verbatim>\<open>setup_database\<close> leaves behind.\<close>

datatype action =
    CancelTransaction int
  | CoinSelect cart_row money string
  | ConfirmPayment int
  | CancelPayment int
  | CryptoCheckout int
  | HandleCheckout int pay_method
  | FinalCloseCart int
  | DeleteCart int
  | CartAction int int int bool
  | ApplyCredit int int money
  | Checkout int
  | CloseCart int
  | CompleteCryptoOrder int
  | CheckPendingPayments
  | WebhookPayment int string
  | PurgeClosedCarts
  | WipeAllCarts
  | OpenTicket int
  | CloseTicket int
  | DeleteTicket int
  | PurgeClosedTickets

fun step :: "env \<Rightarrow> action \<Rightarrow> db \<Rightarrow> db \<times> notice list" where
  "step e (CancelTransaction cid) d = cancel_transaction e cid d"
| "step e (CoinSelect cart total_price coin) d = coin_select e cart total_price coin d"
| "step e (ConfirmPayment cid) d = confirm_payment cid d"
| "step e (CancelPayment cid) d = cancel_payment cid d"
| "step e (CryptoCheckout chan) d = crypto_checkout e chan d"
| "step e (HandleCheckout chan meth) d = handle_checkout e chan meth d"
| "step e (FinalCloseCart chan) d = final_close_cart chan d"
| "step e (DeleteCart chan) d = delete_cart chan d"
| "step e (CartAction uid msg qty add) d = handle_cart_action e uid msg qty add d"
| "step e (ApplyCredit uid chan amount) d = apply_credit uid chan amount d"
| "step e (Checkout chan) d = checkout chan d"
| "step e (CloseCart chan) d = close_cart chan d"
| "step e (CompleteCryptoOrder cid) d = complete_crypto_order e cid d"
| "step e CheckPendingPayments d = check_pending_payments e d"
| "step e (WebhookPayment cid st) d = process_webhook_payment e cid st d"
| "step e PurgeClosedCarts d = purge_closed_carts d"
| "step e WipeAllCarts d = wipe_all_carts d"
| "step e (OpenTicket uid) d = open_ticket e uid d"
| "step e (CloseTicket chan) d = close_ticket chan d"
| "step e (DeleteTicket chan) d = delete_ticket chan d"
| "step e PurgeClosedTickets d = purge_closed_tickets d"

fun run :: "(env \<times> action) list \<Rightarrow> db \<Rightarrow> db" where
  "run [] d = d"
| "run ((e, a) # rest) d = run rest (fst (step e a d))"

definition empty_db :: db where
  "empty_db =
     \<lparr>items = [], carts = [], users = [], tickets = [],
      settings = [(''shop_status'', ''open''), (''hide_stock'', ''false''),
                  (''shop_status_channel_id'', ''0'')],
      analytics = [], cart_seq = 1, ticket_seq = 1\<rparr>"

section \<open>A small shop\<close>

text \<open>One item priced 10 with 5 in stock, posted as message 100, and one buyer (user 7); a world
  in which every channel is found and the gateway approves and captures every order.\<close>

definition item_x :: item_row where
  "item_x = \<lparr>item_id = 1, item_name = ''X'', item_price = 10, item_quantity = 5,
             item_message_id = 100, item_channel_id = 50\<rparr>"

definition shop_db :: "money \<Rightarrow> db" where
  "shop_db credit =
     empty_db\<lparr>items := [item_x],
              users := [\<lparr>user_key = 7, balance = credit, lifetime_spent = 0,
                         delivery_value_handled = 0\<rparr>]\<rparr>"

definition shop_env :: env where
  "shop_env =
     \<lparr>get_channel = (\<lambda>c. True), new_channel_id = 910, new_message_id = 920, utcnow = 1,
      purchase_minimum = 1 / 2,
      create_payment = (\<lambda>t c. (Some ''https://pay.example/1'', Some ''PAY-1'')),
      get_payment_details = (\<lambda>p. Some [(''status'', ''APPROVED'')]),
      capture_payment = (\<lambda>p. Some [(''status'', ''COMPLETED'')]),
      get_coin_price = (\<lambda>c. None), wallet_addresses = (\<lambda>c. None)\<rparr>"

text \<open>The buyer's cart once one unit of the item is in it, credit of 2 is applied and the
  PayPal invoice is posted.\<close>

definition pending_cart :: cart_row where
  "pending_cart =
     \<lparr>cart_id = 1, user_id = 7, channel_id = Some 910,
      cart_data = [(1, \<lparr>quantity = 1, price = 10, name = ''X''\<rparr>)],
      message_id = Some 920, invoice_message_id = Some 920, payment_id = Some ''PAY-1'',
      credit_applied = 2, last_activity = 1, status = PendingPayment,
      payment_method = Some PayPal\<rparr>"

definition pending_db :: db where
  "pending_db =
     empty_db\<lparr>items := [item_x\<lparr>item_quantity := 4\<rparr>], carts := [pending_cart],
              users := [\<lparr>user_key = 7, balance = 0, lifetime_spent = 0,
                         delivery_value_handled = 0\<rparr>],
              cart_seq := 2\<rparr>"

text \<open>The buyer's cart holding 3 units with credit of 2 applied, still active; and a cart
  holding one unit of an item priced \<open>p\<close>.\<close>

definition held_cart :: cart_row where
  "held_cart =
     \<lparr>cart_id = 1, user_id = 7, channel_id = Some 910,
      cart_data = [(1, \<lparr>quantity = 3, price = 10, name = ''X''\<rparr>)],
      message_id = Some 920, invoice_message_id = None, payment_id = None,
      credit_applied = 2, last_activity = 1, status = Active, payment_method = None\<rparr>"

definition held_db :: db where
  "held_db =
     empty_db\<lparr>items := [item_x\<lparr>item_quantity := 2\<rparr>], carts := [held_cart],
              users := [\<lparr>user_key = 7, balance = 0, lifetime_spent = 0,
                         delivery_value_handled = 0\<rparr>],
              cart_seq := 2\<rparr>"

definition priced_cart :: "money \<Rightarrow> cart_row" where
  "priced_cart p =
     \<lparr>cart_id = 1, user_id = 7, channel_id = Some 910,
      cart_data = [(1, \<lparr>quantity = 1, price = p, name = ''X''\<rparr>)],
      message_id = Some 920, invoice_message_id = None, payment_id = None,
      credit_applied = 0, last_activity = 1, status = Active, payment_method = None\<rparr>"

definition priced_db :: "money \<Rightarrow> db" where
  "priced_db p =
     empty_db\<lparr>items := [item_x\<lparr>item_price := p, item_quantity := 4\<rparr>],
              carts := [priced_cart p], cart_seq := 2\<rparr>"

section \<open>Invariants\<close>

text \<open>No cart is \<^verbatim>\<open>active\<close> while it holds an invoice reference.\<close>

definition no_active_invoice :: "db \<Rightarrow> bool" where
  "no_active_invoice d \<longleftrightarrow>
     (\<forall>c \<in> set (carts d). status c = Active \<longrightarrow> invoice_message_id c = None)"

text \<open>No user has two tickets with status \<^verbatim>\<open>open\<close>: the users of the open tickets are pairwise
  different.\<close>

definition one_open_ticket :: "db \<Rightarrow> bool" where
  "one_open_ticket d \<longleftrightarrow>
     distinct (map ticket_user_id (filter (\<lambda>t. ticket_status t = TicketOpen) (tickets d)))"

section \<open>Lookups after updates\<close>

lemma find_map_preserved:
  assumes "\<And>x. P (g x) = P x"
  shows "find P (map g xs) = map_option g (find P xs)"
  using assms by (induction xs) auto

lemma find_append_single:
  "find P (xs @ [y]) = (case find P xs of None \<Rightarrow> (if P y then Some y else None) | Some x \<Rightarrow> Some x)"
  by (induction xs) auto

lemma find_Some_holds: "find P xs = Some x \<Longrightarrow> P x \<and> x \<in> set xs"
  by (induction xs) (auto split: if_splits)

lemma find_distinct_key:
  "distinct (map k xs) \<Longrightarrow> x \<in> set xs \<Longrightarrow> find (\<lambda>y. k y = k x) xs = Some x"
  by (induction xs) (auto simp: rev_image_eqI)

lemma cart_by_id_update_cart:
  assumes "\<And>c. cart_id (f c) = cart_id c"
  shows "cart_by_id k (update_cart cid f d) =
         map_option (\<lambda>c. if cart_id c = cid then f c else c) (cart_by_id k d)"
  unfolding cart_by_id_def update_cart_def using assms
  by (simp add: find_map_preserved)

lemma cart_by_channel_update_cart:
  assumes "\<And>c. channel_id (f c) = channel_id c"
  shows "cart_by_channel ch (update_cart cid f d) =
         map_option (\<lambda>c. if cart_id c = cid then f c else c) (cart_by_channel ch d)"
  unfolding cart_by_channel_def update_cart_def using assms
  by (simp add: find_map_preserved)

lemma cart_by_id_Some: "cart_by_id k d = Some c \<Longrightarrow> cart_id c = k \<and> c \<in> set (carts d)"
  unfolding cart_by_id_def by (auto dest: find_Some_holds)

lemma carts_add_lifetime_spent [simp]: "carts (add_lifetime_spent u x d) = carts d"
  by (simp add: add_lifetime_spent_def split: option.splits)

lemma carts_log_purchases [simp]: "carts (log_purchases c d) = carts d"
  by (simp add: log_purchases_def)

lemma cart_by_id_cong: "carts d' = carts d \<Longrightarrow> cart_by_id k d' = cart_by_id k d"
  by (simp add: cart_by_id_def)

lemma cart_by_id_process_paid_order:
  "cart_by_id k (fst (process_paid_order c x d)) =
   map_option (\<lambda>r. if cart_id r = cart_id c then r\<lparr>status := Paid\<rparr> else r) (cart_by_id k d)"
proof -
  have "cart_by_id k (fst (process_paid_order c x d)) =
        cart_by_id k (update_cart (cart_id c) (\<lambda>r. r\<lparr>status := Paid\<rparr>) d)"
    by (simp add: process_paid_order_def Let_def cart_by_id_def update_cart_def)
  then show ?thesis by (simp add: cart_by_id_update_cart)
qed

lemma cart_by_id_cancel_invoice:
  "cart_by_id k (fst (cancel_invoice c reason d)) =
   (if truthy_id (invoice_message_id c) then
      map_option (\<lambda>r. if cart_id r = cart_id c
                       then r\<lparr>invoice_message_id := None, payment_id := None,
                              payment_method := None, status := Active\<rparr> else r) (cart_by_id k d)
    else cart_by_id k d)"
  by (simp add: cancel_invoice_def cart_by_id_update_cart)

lemma webhook_second_call:
  "process_webhook_payment e cid st (fst (process_webhook_payment e cid st d)) =
   (fst (process_webhook_payment e cid st d), [])"
proof (cases "cart_by_id cid d")
  case None
  then show ?thesis by (simp add: process_webhook_payment_def)
next
  case (Some c)
  then have cid: "cart_id c = cid" by (simp add: cart_by_id_Some)
  let ?confirmed = "st \<in> set [''confirmed'', ''finished'', ''approved'']"
  let ?failed = "st \<in> set [''failed'', ''refunded'', ''expired'', ''partially_paid'']"
  consider (skip) "status c \<in> set [Paid, Completed, Closed] \<or> \<not> chan_found e (channel_id c)
                   \<or> (\<not> ?confirmed \<and> \<not> ?failed)"
    | (conf) "status c \<notin> set [Paid, Completed, Closed]" "chan_found e (channel_id c)" ?confirmed
    | (fail) "status c \<notin> set [Paid, Completed, Closed]" "chan_found e (channel_id c)"
             "\<not> ?confirmed" ?failed
    by blast
  then show ?thesis
  proof cases
    case skip
    then have "process_webhook_payment e cid st d = (d, [])"
      using Some by (auto simp: process_webhook_payment_def)
    then show ?thesis by simp
  next
    case conf
    then have r: "process_webhook_payment e cid st d = process_paid_order c 0 d"
      using Some by (simp add: process_webhook_payment_def)
    have "cart_by_id cid (fst (process_paid_order c 0 d)) = Some (c\<lparr>status := Paid\<rparr>)"
      using Some cid by (simp add: cart_by_id_process_paid_order)
    then show ?thesis
      unfolding r by (simp add: process_webhook_payment_def)
  next
    case fail
    let ?reason = "''Your payment has '' @ st @ ''. Please try again or contact support.''"
    from fail have r: "process_webhook_payment e cid st d = cancel_invoice c ?reason d"
      using Some by (simp add: process_webhook_payment_def)
    show ?thesis
    proof (cases "truthy_id (invoice_message_id c)")
      case True
      then have "cart_by_id cid (fst (cancel_invoice c ?reason d)) =
                 Some (c\<lparr>invoice_message_id := None, payment_id := None,
                         payment_method := None, status := Active\<rparr>)"
        using Some cid by (simp add: cart_by_id_cancel_invoice)
      then show ?thesis
        unfolding r using fail
        by (simp add: process_webhook_payment_def) (simp add: cancel_invoice_def truthy_id_def)
    next
      case False
      then have "cancel_invoice c ?reason d = (d, [])"
        by (simp add: cancel_invoice_def)
      then show ?thesis
        unfolding r using fail Some False
        by (simp add: process_webhook_payment_def)
    qed
  qed
qed

section \<open>Order completion\<close>

text \<open>
  C1 (as the code has it). \<^const>\<open>process_paid_order\<close> reads no status, so it is not idempotent by
  itself; the guard lives in its callers. The webhook entry point checks that the cart is not
  already \<^verbatim>\<open>paid\<close>, \<^verbatim>\<open>completed\<close> or \<^verbatim>\<open>closed\<close>: on a cart that is none of these, with its channel
  found and a confirming status, it runs the order-completion transition once, and a second
  invocation on the same cart, whatever the status it reports, leaves the store as the first one
  left it and sends nothing.
\<close>

theorem webhook_completion_idempotent:
  "process_webhook_payment e cid st (fst (process_webhook_payment e cid st d)) =
     (fst (process_webhook_payment e cid st d), [])
   \<and> (cart_by_id cid d = Some c \<and> status c \<notin> set [Paid, Completed, Closed]
        \<and> chan_found e (channel_id c) \<and> st \<in> set [''confirmed'', ''finished'', ''approved'']
      \<longrightarrow> process_webhook_payment e cid st d = process_paid_order c 0 d)"
proof
  show "process_webhook_payment e cid st (fst (process_webhook_payment e cid st d)) =
          (fst (process_webhook_payment e cid st d), [])"
    by (rule webhook_second_call)
  show "cart_by_id cid d = Some c \<and> status c \<notin> set [Paid, Completed, Closed]
          \<and> chan_found e (channel_id c) \<and> st \<in> set [''confirmed'', ''finished'', ''approved'']
        \<longrightarrow> process_webhook_payment e cid st d = process_paid_order c 0 d"
    by (simp add: process_webhook_payment_def)
qed

theorem webhook_completion_idempotent_witness:
  "cart_by_id 1 pending_db = Some pending_cart
   \<and> status pending_cart \<notin> set [Paid, Completed, Closed]
   \<and> chan_found shop_env (channel_id pending_cart)
   \<and> process_webhook_payment shop_env 1 ''approved'' pending_db
       = process_paid_order pending_cart 0 pending_db
   \<and> process_webhook_payment shop_env 1 ''approved''
         (fst (process_webhook_payment shop_env 1 ''approved'' pending_db))
       = (fst (process_webhook_payment shop_env 1 ''approved'' pending_db), [])
   \<and> map status (carts (fst (process_webhook_payment shop_env 1 ''approved'' pending_db))) = [Paid]"
proof -
  have h: "cart_by_id 1 pending_db = Some pending_cart"
    by (simp add: cart_by_id_def pending_db_def pending_cart_def)
  have s: "status pending_cart \<notin> set [Paid, Completed, Closed]"
    by (simp add: pending_cart_def)
  have ch: "chan_found shop_env (channel_id pending_cart)"
    by (simp add: chan_found_def shop_env_def pending_cart_def)
  have st: "''approved'' \<in> set [''confirmed'', ''finished'', ''approved'']"
    by simp
  note w = webhook_completion_idempotent
             [of shop_env 1 "''approved''" pending_db pending_cart]
  from w h s ch st have first:
    "process_webhook_payment shop_env 1 ''approved'' pending_db
       = process_paid_order pending_cart 0 pending_db"
    by blast
  have paid: "map status (carts (fst (process_paid_order pending_cart 0 pending_db))) = [Paid]"
    by (simp add: process_paid_order_def Let_def update_cart_def pending_db_def pending_cart_def)
  from w h s ch first paid show ?thesis by simp
qed

text \<open>The transition itself, invoked twice on the same cart (the second time on the row as the
  store holds it after the first, with status \<^verbatim>\<open>paid\<close>), adds the lifetime spend twice.\<close>

theorem process_paid_order_twice_counterexample:
  "map lifetime_spent (users pending_db) = [0]
   \<and> map lifetime_spent (users (fst (process_paid_order pending_cart 0 pending_db))) = [10]
   \<and> cart_by_id 1 (fst (process_paid_order pending_cart 0 pending_db))
       = Some (pending_cart\<lparr>status := Paid\<rparr>)
   \<and> map lifetime_spent
        (users (fst (process_paid_order (pending_cart\<lparr>status := Paid\<rparr>) 0
                       (fst (process_paid_order pending_cart 0 pending_db))))) = [20]"
  by (simp add: process_paid_order_def Let_def add_lifetime_spent_def user_by_id_def
      update_cart_def log_purchases_def cart_total_def cart_by_id_def pending_db_def
      pending_cart_def empty_db_def)

text \<open>
  C2 (the code at a failing input). From the small shop with credit 2 the buyer puts one unit
  (total 10) into the cart, applies the credit of 2, and checks out with PayPal; the next
  reconciliation tick captures the payment. The order-completion transition is invoked with its
  default \<^verbatim>\<open>credit_spent = 0\<close>: lifetime spend grows by the whole total 10, not by total minus
  credit applied, which is 8.
\<close>

theorem poll_completion_counts_credit_as_spend:
  "(let d = run [(shop_env, CartAction 7 100 1 True), (shop_env, ApplyCredit 7 910 2),
                 (shop_env, HandleCheckout 910 PayPal)] (shop_db 2)
    in map status (carts d) = [PendingPayment]
       \<and> map credit_applied (carts d) = [2]
       \<and> map (\<lambda>c. cart_total (cart_data c)) (carts d) = [10]
       \<and> map lifetime_spent (users d) = [0]
       \<and> map status (carts (fst (check_pending_payments shop_env d))) = [Paid]
       \<and> map lifetime_spent (users (fst (check_pending_payments shop_env d))) = [10])"
  by code_simp

section \<open>Store credit\<close>

text \<open>
  C3 (the code at a failing input). In the small shop the buyer has credit 20 and a cart of
  total 10. A first application of 6 leaves 14 and an outstanding total of 4. A second
  application of 10 passes the balance check and is capped by \<^verbatim>\<open>min(amount, total_price)\<close> at
  the whole total 10, not at the outstanding 4: the balance drops to 4, the cart carries credit
  16, and its outstanding total is \<open>-6\<close>.
\<close>

theorem apply_credit_caps_at_total_not_outstanding:
  "(let d = run [(shop_env, CartAction 7 100 1 True), (shop_env, ApplyCredit 7 910 6)] (shop_db 20);
        d' = fst (apply_credit 7 910 10 d)
    in map balance (users d) = [14]
       \<and> map credit_applied (carts d) = [6]
       \<and> map (\<lambda>c. cart_total (cart_data c)) (carts d) = [10]
       \<and> map status (carts d) = [Active]
       \<and> map balance (users d') = [4]
       \<and> map credit_applied (carts d') = [16]
       \<and> map (\<lambda>c. cart_total (cart_data c) - credit_applied c) (carts d') = [- 6])"
  by code_simp

section \<open>Stock\<close>

text \<open>
  C5 (the code at a failing input). The buyer holds one unit of the item (stock 4 of initially
  5) and removes 3: the stock is raised by 3 before the cart is looked at, the cart gives up the
  one unit it held. No cart retains anything, and the stock is 7, not the initial 5.
\<close>

theorem remove_restores_more_than_held:
  "(let d0 = shop_db 0;
        d1 = fst (handle_cart_action shop_env 7 100 1 True d0);
        d2 = fst (handle_cart_action shop_env 7 100 3 False d1)
    in map item_quantity (items d0) = [5]
       \<and> map item_quantity (items d1) = [4]
       \<and> map (\<lambda>c. map (\<lambda>(k, i). (k, quantity i)) (cart_data c)) (carts d1) = [[(1, 1)]]
       \<and> map item_quantity (items d2) = [7]
       \<and> map cart_data (carts d2) = [[]]
       \<and> map status (carts d2) = [Active])"
  by code_simp

section \<open>Validation\<close>

text \<open>
  C9 (the code at failing inputs). \<^const>\<open>apply_credit\<close> compares the amount with the balance only:
  an amount of \<open>-5\<close> is not rejected, the balance of 0 becomes 5 and the cart carries credit
  \<open>-5\<close>. An add of 9 units against a stock of 5 by a buyer without a cart is answered with the
  insufficient-stock message, but the cart row made for it stays in the table.
\<close>

theorem negative_credit_and_rejected_add_mutate:
  "(let d = fst (handle_cart_action shop_env 7 100 1 True (shop_db 0));
        r = apply_credit 7 910 (- 5) d
    in map balance (users d) = [0]
       \<and> map credit_applied (carts d) = [0]
       \<and> snd r = [CreditApplied (- 5) 15]
       \<and> map balance (users (fst r)) = [5]
       \<and> map credit_applied (carts (fst r)) = [- 5])
   \<and> (let r = handle_cart_action shop_env 7 100 9 True (shop_db 0)
      in carts (shop_db 0) = []
         \<and> snd r = [InsufficientStock]
         \<and> map item_quantity (items (fst r)) = [5]
         \<and> map cart_id (carts (fst r)) = [1])"
  by code_simp

section \<open>Reconciliation\<close>

lemma cart_by_id_poll_cart_other:
  "k \<noteq> cart_id r \<Longrightarrow> cart_by_id k (fst (poll_cart e r d)) = cart_by_id k d"
  by (cases "cart_by_id k d")
     (auto simp: poll_cart_def cart_by_id_process_paid_order cart_by_id_cancel_invoice
           dest: cart_by_id_Some split: option.splits)

lemma cart_by_id_poll_loop_other:
  "k \<notin> cart_id ` set rows \<Longrightarrow> cart_by_id k (fst (poll_loop e rows d)) = cart_by_id k d"
proof (induction rows arbitrary: d)
  case Nil
  then show ?case by simp
next
  case (Cons r rows)
  then have "k \<noteq> cart_id r" and "k \<notin> cart_id ` set rows" by auto
  then show ?case
    using Cons.IH [of "fst (poll_cart e r d)"]
    by (simp add: split_beta Let_def cart_by_id_poll_cart_other)
qed

lemma cart_by_id_poll_cart_self:
  assumes "cart_by_id (cart_id c) d = Some c" "chan_found e (channel_id c)"
  shows "cart_by_id (cart_id c) (fst (poll_cart e c d)) = Some (reconciled e c)"
  using assms
  by (auto simp: poll_cart_def reconciled_def cart_by_id_process_paid_order
      cart_by_id_cancel_invoice split: option.splits)

lemma cart_by_id_poll_loop_self:
  assumes "distinct (map cart_id rows)" "c \<in> set rows"
    "cart_by_id (cart_id c) d = Some c" "chan_found e (channel_id c)"
  shows "cart_by_id (cart_id c) (fst (poll_loop e rows d)) = Some (reconciled e c)"
  using assms
proof (induction rows arbitrary: d)
  case Nil
  then show ?case by simp
next
  case (Cons r rows)
  show ?case
  proof (cases "r = c")
    case True
    with Cons.prems have "cart_id c \<notin> cart_id ` set rows" by auto
    then have "cart_by_id (cart_id c) (fst (poll_loop e rows (fst (poll_cart e c d)))) =
               cart_by_id (cart_id c) (fst (poll_cart e c d))"
      by (rule cart_by_id_poll_loop_other)
    with True Cons.prems show ?thesis
      by (simp add: split_beta Let_def cart_by_id_poll_cart_self)
  next
    case False
    with Cons.prems have in_rest: "c \<in> set rows" and dist: "distinct (map cart_id rows)"
      and fresh: "cart_id r \<notin> cart_id ` set rows"
      by auto
    from in_rest fresh have ne: "cart_id c \<noteq> cart_id r"
      by (metis imageI)
    have "cart_by_id (cart_id c) (fst (poll_cart e r d)) = Some c"
      using ne Cons.prems(3) by (simp add: cart_by_id_poll_cart_other)
    from Cons.IH [OF dist in_rest this Cons.prems(4)] show ?thesis
      by (simp add: split_beta Let_def)
  qed
qed

lemma poll_cart_notices:
  "snd (poll_cart e c d) = snd (poll_cart e c d')"
  by (simp add: poll_cart_def process_paid_order_def cancel_invoice_def Let_def split: option.splits)

lemma poll_loop_notices:
  "c \<in> set rows \<Longrightarrow> set (snd (poll_cart e c d0)) \<subseteq> set (snd (poll_loop e rows d))"
proof (induction rows arbitrary: d)
  case Nil
  then show ?case by simp
next
  case (Cons r rows)
  show ?case
  proof (cases "r = c")
    case True
    then show ?thesis
      using poll_cart_notices [of e c d0 d] by (simp add: split_beta Let_def)
  next
    case False
    with Cons.prems have "c \<in> set rows" by simp
    from Cons.IH [OF this, of "fst (poll_cart e r d)"] show ?thesis
      by (auto simp: split_beta Let_def)
  qed
qed

text \<open>
  C8. One reconciliation tick, seen from any cart \<open>c\<close> that the tick selects (status
  \<^verbatim>\<open>pending_payment\<close>, method \<^verbatim>\<open>paypal\<close>, payment reference \<open>pid\<close>) and whose channel is found,
  in a store whose cart ids are distinct (\<^verbatim>\<open>id\<close> is the primary key). The gateway is asked for
  the order; when it reports \<^verbatim>\<open>APPROVED\<close> the capture decides: on \<^verbatim>\<open>COMPLETED\<close> the loop body is
  the order-completion transition, the cart is \<^verbatim>\<open>paid\<close> after the tick and the buyer is told;
  on a failed or uncompleted capture the loop body is the invoice cancellation, and a cart that
  carries an invoice reference is \<^verbatim>\<open>active\<close> again after the tick, its payment fields cleared and
  the reason sent to the buyer. When the order is not approved the cart is left as it was.
\<close>

theorem reconciliation_tick:
  assumes "distinct (map cart_id (carts d))" and "c \<in> set (carts d)"
    and "pending_paypal c" and "payment_id c = Some pid" and "chan_found e (channel_id c)"
  shows "(order_approved e pid \<and> capture_completed e pid \<longrightarrow>
            poll_cart e c d = process_paid_order c 0 d
            \<and> cart_by_id (cart_id c) (fst (check_pending_payments e d)) = Some (c\<lparr>status := Paid\<rparr>)
            \<and> PaymentSuccessful (cart_id c) \<in> set (snd (check_pending_payments e d)))
       \<and> (order_approved e pid \<and> \<not> capture_completed e pid \<longrightarrow>
            poll_cart e c d = cancel_invoice c capture_failed_reason d
            \<and> (truthy_id (invoice_message_id c) \<longrightarrow>
                 cart_by_id (cart_id c) (fst (check_pending_payments e d))
                   = Some (c\<lparr>invoice_message_id := None, payment_id := None,
                            payment_method := None, status := Active\<rparr>)
                 \<and> InvoiceCanceled (cart_id c) capture_failed_reason
                      \<in> set (snd (check_pending_payments e d))))
       \<and> (\<not> order_approved e pid \<longrightarrow>
            poll_cart e c d = (d, [])
            \<and> cart_by_id (cart_id c) (fst (check_pending_payments e d)) = Some c)"
proof -
  let ?rows = "filter pending_paypal (carts d)"
  have rows: "c \<in> set ?rows" using assms(2,3) by simp
  have dist: "distinct (map cart_id ?rows)" using assms(1) by (rule distinct_map_filter)
  have self: "cart_by_id (cart_id c) d = Some c"
    unfolding cart_by_id_def using assms(1,2) by (rule find_distinct_key)
  have final: "cart_by_id (cart_id c) (fst (check_pending_payments e d)) = Some (reconciled e c)"
    unfolding check_pending_payments_def
    using dist rows self assms(5) by (rule cart_by_id_poll_loop_self)
  have sent: "set (snd (poll_cart e c d)) \<subseteq> set (snd (check_pending_payments e d))"
    unfolding check_pending_payments_def using rows by (rule poll_loop_notices)
  have body: "poll_cart e c d =
        (if order_approved e pid then
           (if capture_completed e pid then process_paid_order c 0 d
            else cancel_invoice c capture_failed_reason d)
         else (d, []))"
    using assms(4,5) by (simp add: poll_cart_def)
  show ?thesis
    using final sent body assms(4)
    by (auto simp: reconciled_def process_paid_order_def cancel_invoice_def Let_def)
qed

theorem reconciliation_tick_witness:
  "distinct (map cart_id (carts pending_db)) \<and> pending_cart \<in> set (carts pending_db)
   \<and> pending_paypal pending_cart \<and> payment_id pending_cart = Some ''PAY-1''
   \<and> truthy_id (invoice_message_id pending_cart)
   \<and> (let e = shop_env
      in chan_found e (channel_id pending_cart)
         \<and> order_approved e ''PAY-1'' \<and> capture_completed e ''PAY-1''
         \<and> cart_by_id 1 (fst (check_pending_payments e pending_db))
             = Some (pending_cart\<lparr>status := Paid\<rparr>)
         \<and> PaymentSuccessful 1 \<in> set (snd (check_pending_payments e pending_db)))
   \<and> (let e = shop_env\<lparr>capture_payment := (\<lambda>p. None)\<rparr>
      in chan_found e (channel_id pending_cart)
         \<and> order_approved e ''PAY-1'' \<and> \<not> capture_completed e ''PAY-1''
         \<and> cart_by_id 1 (fst (check_pending_payments e pending_db))
             = Some (pending_cart\<lparr>invoice_message_id := None, payment_id := None,
                                  payment_method := None, status := Active\<rparr>)
         \<and> InvoiceCanceled 1 capture_failed_reason
              \<in> set (snd (check_pending_payments e pending_db)))
   \<and> (let e = shop_env\<lparr>get_payment_details := (\<lambda>p. Some [(''status'', ''CREATED'')])\<rparr>
      in chan_found e (channel_id pending_cart)
         \<and> \<not> order_approved e ''PAY-1''
         \<and> cart_by_id 1 (fst (check_pending_payments e pending_db)) = Some pending_cart)"
proof -
  have d: "distinct (map cart_id (carts pending_db))" and m: "pending_cart \<in> set (carts pending_db)"
    by (simp_all add: pending_db_def)
  have p: "pending_paypal pending_cart" and pid: "payment_id pending_cart = Some ''PAY-1''"
    and inv: "truthy_id (invoice_message_id pending_cart)" and cid: "cart_id pending_cart = 1"
    by (simp_all add: pending_paypal_def pending_cart_def truthy_id_def)
  have ch: "chan_found (shop_env\<lparr>capture_payment := f, get_payment_details := g\<rparr>)
              (channel_id pending_cart)" for f g
    by (simp add: chan_found_def shop_env_def pending_cart_def)
  have ch0: "chan_found shop_env (channel_id pending_cart)"
    and ch1: "chan_found (shop_env\<lparr>capture_payment := f\<rparr>) (channel_id pending_cart)"
    and ch2: "chan_found (shop_env\<lparr>get_payment_details := g\<rparr>) (channel_id pending_cart)" for f g
    by (simp_all add: chan_found_def shop_env_def pending_cart_def)
  have a0: "order_approved shop_env ''PAY-1''" and c0: "capture_completed shop_env ''PAY-1''"
    and a1: "order_approved (shop_env\<lparr>capture_payment := (\<lambda>p. None)\<rparr>) ''PAY-1''"
    and c1: "\<not> capture_completed (shop_env\<lparr>capture_payment := (\<lambda>p. None)\<rparr>) ''PAY-1''"
    and a2: "\<not> order_approved
               (shop_env\<lparr>get_payment_details := (\<lambda>p. Some [(''status'', ''CREATED'')])\<rparr>) ''PAY-1''"
    by (simp_all add: order_approved_def capture_completed_def shop_env_def)
  note t0 = reconciliation_tick [OF d m p pid ch0]
  note t1 = reconciliation_tick [OF d m p pid ch1 [of "\<lambda>p. None"]]
  note t2 = reconciliation_tick [OF d m p pid ch2 [of "\<lambda>p. Some [(''status'', ''CREATED'')]"]]
  show ?thesis
    using d m p pid inv ch0 ch1 ch2 a0 c0 a1 c1 a2 t0 t1 t2
    by (simp add: Let_def cid)
qed

section \<open>Closing a cart\<close>

lemma held_distinct:
  "distinct (map fst cart) \<Longrightarrow>
   sum_list (map (\<lambda>(k, l). if k = x then quantity l else 0) cart)
     = (case map_of cart x of None \<Rightarrow> 0 | Some l \<Rightarrow> quantity l)"
proof (induction cart)
  case Nil
  then show ?case by simp
next
  case (Cons a cart)
  obtain k l where a: "a = (k, l)" by (cases a)
  show ?case
  proof (cases "k = x")
    case True
    with Cons.prems a have "x \<notin> fst ` set cart" by auto
    then have "map_of cart x = None" by (simp add: map_of_eq_None_iff)
    with Cons a True show ?thesis by simp
  next
    case False
    with Cons a show ?thesis by simp
  qed
qed

lemma restore_stock_eq:
  "restore_stock cart d =
     d\<lparr>items := map (\<lambda>i. i\<lparr>item_quantity := item_quantity i
                          + sum_list (map (\<lambda>(k, l). if k = item_id i then quantity l else 0) cart)\<rparr>)
                   (items d)\<rparr>"
proof (induction cart arbitrary: d)
  case Nil
  then show ?case by (simp add: map_idI)
next
  case (Cons a cart)
  obtain k l where a: "a = (k, l)" by (cases a)
  show ?case
    unfolding a by (simp add: Cons.IH add_stock_def)
qed

text \<open>
  C6. Closing the cart found in the channel (the source does not read its status, so this holds
  for an \<^verbatim>\<open>active\<close> cart in particular), whose JSON object has one line per item id and whose
  credit applied is not negative: every item's stock grows by exactly the quantity the cart
  holds of it (by nothing when the cart has no line for it), the balance of the owning user
  grows by the whole \<^verbatim>\<open>credit_applied\<close>, the cart's status becomes \<^verbatim>\<open>closed\<close>, nothing else in the
  store changes, and the buyer is told that the cart is archived.
\<close>

theorem close_cart_restores:
  assumes "cart_by_channel chan d = Some c" and "distinct (map fst (cart_data c))"
    and "0 \<le> credit_applied c"
  shows "close_cart chan d =
           (d\<lparr>items := map (\<lambda>i. i\<lparr>item_quantity := item_quantity i +
                                   (case map_of (cart_data c) (item_id i) of
                                      None \<Rightarrow> 0 | Some l \<Rightarrow> quantity l)\<rparr>) (items d),
              users := map (\<lambda>r. if user_key r = user_id c
                                 then r\<lparr>balance := balance r + credit_applied c\<rparr> else r) (users d),
              carts := map (\<lambda>r. if cart_id r = cart_id c then r\<lparr>status := Closed\<rparr> else r)
                         (carts d)\<rparr>,
            [CartArchived])"
proof -
  have stock: "restore_stock (cart_data c) d =
      d\<lparr>items := map (\<lambda>i. i\<lparr>item_quantity := item_quantity i +
                                   (case map_of (cart_data c) (item_id i) of
                                      None \<Rightarrow> 0 | Some l \<Rightarrow> quantity l)\<rparr>) (items d)\<rparr>"
    by (simp add: restore_stock_eq held_distinct [OF assms(2)])
  have refund: "(if credit_applied c > 0 then add_balance (user_id c) (credit_applied c) d' else d')
      = d'\<lparr>users := map (\<lambda>r. if user_key r = user_id c
                                 then r\<lparr>balance := balance r + credit_applied c\<rparr> else r) (users d')\<rparr>"
    for d' :: db
  proof (cases "credit_applied c > 0")
    case True
    then show ?thesis by (simp add: add_balance_def)
  next
    case False
    with assms(3) have "credit_applied c = 0" by simp
    then show ?thesis by (simp add: map_idI)
  qed
  show ?thesis
    using assms(1)
    by (simp add: close_cart_def Let_def stock refund update_cart_def)
qed


text \<open>The scenario of the specification: 3 units of item X and credit 2, reached by an add and
  an application of credit in the small shop.\<close>

lemma held_db_reached:
  "run [(shop_env, CartAction 7 100 3 True), (shop_env, ApplyCredit 7 910 2)] (shop_db 2) = held_db"
  by code_simp

theorem close_cart_restores_witness:
  "cart_by_channel 910 held_db = Some held_cart
   \<and> distinct (map fst (cart_data held_cart)) \<and> 0 \<le> credit_applied held_cart
   \<and> status held_cart = Active
   \<and> map item_quantity (items held_db) = [2]
   \<and> map balance (users held_db) = [0]
   \<and> map item_quantity (items (fst (close_cart 910 held_db))) = [5]
   \<and> map balance (users (fst (close_cart 910 held_db))) = [2]
   \<and> map status (carts (fst (close_cart 910 held_db))) = [Closed]
   \<and> snd (close_cart 910 held_db) = [CartArchived]"
proof -
  have c: "cart_by_channel 910 held_db = Some held_cart"
    by (simp add: cart_by_channel_def held_db_def held_cart_def)
  have k: "distinct (map fst (cart_data held_cart))" and n: "0 \<le> credit_applied held_cart"
    by (simp_all add: held_cart_def)
  show ?thesis
    using c k n close_cart_restores [OF c k n]
    by (simp add: held_db_def held_cart_def item_x_def)
qed


section \<open>The purchase minimum\<close>

lemma cart_by_channel_cancel_invoice:
  "cart_by_channel ch (fst (cancel_invoice c reason d)) =
   (if truthy_id (invoice_message_id c) then
      map_option (\<lambda>r. if cart_id r = cart_id c
                       then r\<lparr>invoice_message_id := None, payment_id := None,
                              payment_method := None, status := Active\<rparr> else r)
        (cart_by_channel ch d)
    else cart_by_channel ch d)"
  by (simp add: cancel_invoice_def cart_by_channel_update_cart)

lemma snd_cancel_invoice:
  "snd (cancel_invoice c reason d) =
     (if truthy_id (invoice_message_id c) then [InvoiceCanceled (cart_id c) reason] else [])"
  by (simp add: cancel_invoice_def)

text \<open>What \<^const>\<open>handle_checkout\<close> does once the gates and the minimum are passed.\<close>

lemma handle_checkout_proceeds:
  assumes c: "cart_by_channel chan d = Some c"
    and st: "status c \<notin> set [Paid, Completed, Closed, PendingPayment]"
    and shop: "\<not> (shop_closed d \<and> \<not> truthy_str (payment_id c))"
    and tot: "purchase_minimum e \<le> cart_total (cart_data c)"
    and cp: "create_payment e (cart_total (cart_data c)) (cart_id c) = (url, pid)"
  shows "\<exists>d1 n1 d3. (\<forall>m. MinimumNotMet m \<notin> set n1)
           \<and> handle_checkout e chan meth d =
               (if truthy_str url \<and> truthy_str pid
                then (d3, n1 @ [PaymentLink (cart_id c) (url_text url)])
                else (d1, n1 @ [PaymentLinkError]))
           \<and> map_option status (cart_by_channel chan d3) = Some PendingPayment
           \<and> map_option payment_id (cart_by_channel chan d3) = Some pid"
proof -
  let ?reason = "''A new payment method was selected or a new invoice was generated.''"
  let ?cancel = "truthy_id (invoice_message_id c) \<and> chan_found e (channel_id c)"
  let ?r1 = "if ?cancel then cancel_invoice c ?reason d else (d, [])"
  let ?c1 = "if ?cancel then c\<lparr>invoice_message_id := None, payment_id := None,
                                payment_method := None, status := Active\<rparr> else c"
  let ?d1 = "fst ?r1" and ?n1 = "snd ?r1"
  have c1: "cart_by_channel chan ?d1 = Some ?c1"
    using c by (simp add: cart_by_channel_cancel_invoice)
  have id1: "cart_id ?c1 = cart_id c" by simp
  let ?d2 = "update_cart (cart_id c)
               (\<lambda>r. r\<lparr>payment_id := pid, payment_method := Some meth,
                      status := PendingPayment, last_activity := utcnow e\<rparr>) ?d1"
  let ?d3 = "update_cart (cart_id c) (\<lambda>r. r\<lparr>invoice_message_id := Some (new_message_id e)\<rparr>) ?d2"
  have n1: "\<forall>m. MinimumNotMet m \<notin> set ?n1"
    by (simp add: snd_cancel_invoice)
  have hc: "handle_checkout e chan meth d =
               (if truthy_str url \<and> truthy_str pid
                then (?d3, ?n1 @ [PaymentLink (cart_id c) (url_text url)])
                else (?d1, ?n1 @ [PaymentLinkError]))"
    using c st shop tot cp c1 id1
    by (auto simp: handle_checkout_def Let_def split_beta)
  have d3: "cart_by_channel chan ?d3 =
              Some (?c1\<lparr>payment_id := pid, payment_method := Some meth,
                        status := PendingPayment, last_activity := utcnow e,
                        invoice_message_id := Some (new_message_id e)\<rparr>)"
    using c1 id1 by (simp add: cart_by_channel_update_cart)
  have "map_option status (cart_by_channel chan ?d3) = Some PendingPayment"
    and "map_option payment_id (cart_by_channel chan ?d3) = Some pid"
    unfolding d3 by simp_all
  with n1 hc show ?thesis by blast
qed


text \<open>
  C7. For a cart that is found and passes the gates before the minimum check (not processed,
  no pending payment, shop open or a payment reference to resume): \<^const>\<open>handle_checkout\<close> answers
  with the minimum-not-met message exactly when the cart total is strictly below the configured
  minimum, and then it changes nothing. When the total is equal to or above the minimum no such
  message is sent and the checkout goes on to the gateway: if it returns a link the invoice is
  posted and the cart is in \<^verbatim>\<open>pending_payment\<close>.
\<close>

theorem checkout_minimum_boundary:
  assumes "cart_by_channel chan d = Some c"
    and "status c \<notin> set [Paid, Completed, Closed, PendingPayment]"
    and "\<not> (shop_closed d \<and> \<not> truthy_str (payment_id c))"
  shows "(MinimumNotMet (purchase_minimum e) \<in> set (snd (handle_checkout e chan meth d))
            \<longleftrightarrow> cart_total (cart_data c) < purchase_minimum e)
       \<and> (cart_total (cart_data c) < purchase_minimum e \<longrightarrow>
            handle_checkout e chan meth d = (d, [MinimumNotMet (purchase_minimum e)]))
       \<and> (purchase_minimum e \<le> cart_total (cart_data c) \<longrightarrow>
            (\<forall>m. MinimumNotMet m \<notin> set (snd (handle_checkout e chan meth d)))
            \<and> (truthy_str (fst (create_payment e (cart_total (cart_data c)) (cart_id c)))
                 \<and> truthy_str (snd (create_payment e (cart_total (cart_data c)) (cart_id c)))
               \<longrightarrow> PaymentLink (cart_id c)
                      (url_text (fst (create_payment e (cart_total (cart_data c)) (cart_id c))))
                     \<in> set (snd (handle_checkout e chan meth d))
                   \<and> map_option status (cart_by_channel chan (fst (handle_checkout e chan meth d)))
                       = Some PendingPayment))"
proof -
  have below: "handle_checkout e chan meth d = (d, [MinimumNotMet (purchase_minimum e)])"
    if "cart_total (cart_data c) < purchase_minimum e"
    using assms that by (auto simp: handle_checkout_def Let_def)
  have above: "(\<forall>m. MinimumNotMet m \<notin> set (snd (handle_checkout e chan meth d)))
            \<and> (truthy_str (fst (create_payment e (cart_total (cart_data c)) (cart_id c)))
                 \<and> truthy_str (snd (create_payment e (cart_total (cart_data c)) (cart_id c)))
               \<longrightarrow> PaymentLink (cart_id c)
                      (url_text (fst (create_payment e (cart_total (cart_data c)) (cart_id c))))
                     \<in> set (snd (handle_checkout e chan meth d))
                   \<and> map_option status (cart_by_channel chan (fst (handle_checkout e chan meth d)))
                       = Some PendingPayment)"
    if tot: "purchase_minimum e \<le> cart_total (cart_data c)"
  proof -
    obtain url pid where cp: "create_payment e (cart_total (cart_data c)) (cart_id c) = (url, pid)"
      by (cases "create_payment e (cart_total (cart_data c)) (cart_id c)")
    from handle_checkout_proceeds [OF assms tot cp, of meth]
    obtain d1 n1 d3 where n1: "\<forall>m. MinimumNotMet m \<notin> set n1"
      and hc: "handle_checkout e chan meth d =
               (if truthy_str url \<and> truthy_str pid
                then (d3, n1 @ [PaymentLink (cart_id c) (url_text url)])
                else (d1, n1 @ [PaymentLinkError]))"
      and st3: "map_option status (cart_by_channel chan d3) = Some PendingPayment"
      by blast
    show ?thesis
      unfolding hc cp using n1 st3 by simp
  qed
  show ?thesis
  proof (cases "cart_total (cart_data c) < purchase_minimum e")
    case True
    with below [OF True] show ?thesis by simp
  next
    case False
    then have "purchase_minimum e \<le> cart_total (cart_data c)" by simp
    from above [OF this] False show ?thesis by simp
  qed
qed

text \<open>The scenario of the specification: with a minimum of 0.50 a total of exactly 0.50 is let
  through, a total of 0.49 is rejected.\<close>

theorem checkout_minimum_boundary_witness:
  "purchase_minimum shop_env = 1 / 2
   \<and> (let c = priced_cart (1 / 2); d = priced_db (1 / 2)
      in cart_by_channel 910 d = Some c
         \<and> status c \<notin> set [Paid, Completed, Closed, PendingPayment]
         \<and> \<not> (shop_closed d \<and> \<not> truthy_str (payment_id c))
         \<and> cart_total (cart_data c) = 1 / 2
         \<and> (\<forall>m. MinimumNotMet m \<notin> set (snd (handle_checkout shop_env 910 PayPal d)))
         \<and> PaymentLink 1 ''https://pay.example/1'' \<in> set (snd (handle_checkout shop_env 910 PayPal d))
         \<and> map_option status (cart_by_channel 910 (fst (handle_checkout shop_env 910 PayPal d)))
             = Some PendingPayment)
   \<and> (let c = priced_cart (49 / 100); d = priced_db (49 / 100)
      in cart_by_channel 910 d = Some c
         \<and> status c \<notin> set [Paid, Completed, Closed, PendingPayment]
         \<and> \<not> (shop_closed d \<and> \<not> truthy_str (payment_id c))
         \<and> cart_total (cart_data c) = 49 / 100
         \<and> handle_checkout shop_env 910 PayPal d = (d, [MinimumNotMet (1 / 2)]))"
proof -
  have c: "cart_by_channel 910 (priced_db p) = Some (priced_cart p)" for p
    by (simp add: cart_by_channel_def priced_db_def priced_cart_def)
  have s: "status (priced_cart p) \<notin> set [Paid, Completed, Closed, PendingPayment]" for p
    by (simp add: priced_cart_def)
  have o: "\<not> (shop_closed (priced_db p) \<and> \<not> truthy_str (payment_id (priced_cart p)))" for p
    by (simp add: shop_closed_def get_setting_def priced_db_def empty_db_def)
  have t: "cart_total (cart_data (priced_cart p)) = p" and i: "cart_id (priced_cart p) = 1" for p
    by (simp_all add: cart_total_def priced_cart_def)
  have m: "purchase_minimum shop_env = 1 / 2"
    and g: "create_payment shop_env x y = (Some ''https://pay.example/1'', Some ''PAY-1'')" for x y
    by (simp_all add: shop_env_def)
  note at_minimum =
    checkout_minimum_boundary [OF c [of "1 / 2"] s [of "1 / 2"] o [of "1 / 2"], of shop_env PayPal]
  note below_minimum =
    checkout_minimum_boundary [OF c [of "49 / 100"] s [of "49 / 100"] o [of "49 / 100"],
      of shop_env PayPal]
  show ?thesis
    using c s o at_minimum below_minimum
    by (simp add: Let_def t i m g truthy_str_def url_text_def)
qed

section \<open>The invoice reference of an active cart\<close>

text \<open>Each operation that writes to the carts table keeps the invariant; the proofs follow the
  writes of each handler.\<close>

lemma nai_update_cart:
  assumes "no_active_invoice d"
    and "\<And>c. (status c = Active \<longrightarrow> invoice_message_id c = None) \<Longrightarrow>
              (status (f c) = Active \<longrightarrow> invoice_message_id (f c) = None)"
  shows "no_active_invoice (update_cart cid f d)"
  using assms unfolding no_active_invoice_def update_cart_def by auto

lemma nai_carts_eq: "carts d' = carts d \<Longrightarrow> no_active_invoice d' = no_active_invoice d"
  by (simp add: no_active_invoice_def)

lemma nai_carts_subset:
  "set (carts d') \<subseteq> set (carts d) \<Longrightarrow> no_active_invoice d \<Longrightarrow> no_active_invoice d'"
  unfolding no_active_invoice_def by blast

lemma update_cart_twice:
  assumes "\<And>c. cart_id (g c) = cart_id c"
  shows "update_cart cid f (update_cart cid g d) = update_cart cid (\<lambda>c. f (g c)) d"
  using assms by (simp add: update_cart_def)

lemma carts_add_stock [simp]: "carts (add_stock k n d) = carts d"
  by (simp add: add_stock_def)

lemma carts_add_balance [simp]: "carts (add_balance u x d) = carts d"
  by (simp add: add_balance_def)

lemma carts_restore_stock [simp]: "carts (restore_stock cart d) = carts d"
  by (induction cart arbitrary: d) auto

lemma nai_cancel_invoice:
  "no_active_invoice d \<Longrightarrow> no_active_invoice (fst (cancel_invoice c reason d))"
  by (simp add: cancel_invoice_def nai_update_cart)

lemma nai_process_paid_order:
  "no_active_invoice d \<Longrightarrow> no_active_invoice (fst (process_paid_order c x d))"
proof -
  assume a: "no_active_invoice d"
  have "carts (fst (process_paid_order c x d)) =
        carts (update_cart (cart_id c) (\<lambda>r. r\<lparr>status := Paid\<rparr>) d)"
    by (simp add: process_paid_order_def Let_def update_cart_def)
  then have "no_active_invoice (fst (process_paid_order c x d)) =
             no_active_invoice (update_cart (cart_id c) (\<lambda>r. r\<lparr>status := Paid\<rparr>) d)"
    by (rule nai_carts_eq)
  with a show ?thesis by (simp add: nai_update_cart)
qed

lemma nai_cancel_transaction:
  "no_active_invoice d \<Longrightarrow> no_active_invoice (fst (cancel_transaction e cid d))"
  by (simp add: cancel_transaction_def split_beta nai_cancel_invoice split: option.splits)

lemma nai_cancel_payment:
  "no_active_invoice d \<Longrightarrow> no_active_invoice (fst (cancel_payment cid d))"
  by (simp add: cancel_payment_def split_beta nai_cancel_invoice split: option.splits)

lemma nai_confirm_payment:
  "no_active_invoice d \<Longrightarrow> no_active_invoice (fst (confirm_payment cid d))"
  by (simp add: confirm_payment_def nai_update_cart)

lemma nai_coin_select:
  "no_active_invoice d \<Longrightarrow> no_active_invoice (fst (coin_select e c tp coin d))"
  by (simp add: coin_select_def Let_def update_cart_twice nai_update_cart split: option.splits)

lemma nai_crypto_checkout:
  "no_active_invoice d \<Longrightarrow> no_active_invoice (fst (crypto_checkout e chan d))"
  by (simp add: crypto_checkout_def Let_def split_beta nai_cancel_invoice split: option.splits)

lemma nai_handle_checkout:
  "no_active_invoice d \<Longrightarrow> no_active_invoice (fst (handle_checkout e chan meth d))"
  by (simp add: handle_checkout_def Let_def split_beta update_cart_twice nai_update_cart
      nai_cancel_invoice split: option.splits)

lemma nai_final_close_cart:
  "no_active_invoice d \<Longrightarrow> no_active_invoice (fst (final_close_cart chan d))"
  by (simp add: final_close_cart_def nai_update_cart split: option.splits)

lemma nai_delete_cart:
  "no_active_invoice d \<Longrightarrow> no_active_invoice (fst (delete_cart chan d))"
  by (rule nai_carts_subset [rotated]) (auto simp: delete_cart_def)

lemma nai_purge_closed_carts:
  "no_active_invoice d \<Longrightarrow> no_active_invoice (fst (purge_closed_carts d))"
  by (rule nai_carts_subset [rotated]) (auto simp: purge_closed_carts_def)

lemma nai_wipe_all_carts: "no_active_invoice (fst (wipe_all_carts d))"
  by (simp add: wipe_all_carts_def no_active_invoice_def)

lemma nai_insert_cart:
  "no_active_invoice d \<Longrightarrow> no_active_invoice (snd (insert_cart uid t d))"
  by (simp add: insert_cart_def no_active_invoice_def)

lemma nai_add_stock: "no_active_invoice (add_stock k n d) = no_active_invoice d"
  by (rule nai_carts_eq) simp

lemma nai_add_balance: "no_active_invoice (add_balance u x d) = no_active_invoice d"
  by (rule nai_carts_eq) simp

lemma nai_restore_stock: "no_active_invoice (restore_stock cart d) = no_active_invoice d"
  by (rule nai_carts_eq) simp

lemma nai_handle_cart_action:
  assumes "no_active_invoice d"
  shows "no_active_invoice (fst (handle_cart_action e uid msg qty add d))"
proof -
  have new: "no_active_invoice
               (update_cart cid (\<lambda>c. c\<lparr>channel_id := Some ch\<rparr>) (snd (insert_cart uid t d)))"
    for cid ch t
    by (simp add: nai_update_cart nai_insert_cart assms)
  have tail: "no_active_invoice
      (update_cart cid f (fst (cancel_invoice c reason (add_stock k n d1))))"
    if "no_active_invoice d1"
      and "\<And>r. status (f r) = status r \<and> invoice_message_id (f r) = invoice_message_id r"
    for cid f c reason k n d1
    using that by (simp add: nai_update_cart nai_cancel_invoice nai_add_stock)
  show ?thesis
    using assms new
    by (auto simp: handle_cart_action_def Let_def split_beta nai_add_stock
        intro!: tail split: option.splits)
qed

lemma nai_apply_credit:
  "no_active_invoice d \<Longrightarrow> no_active_invoice (fst (apply_credit uid chan amt d))"
  by (simp add: apply_credit_def Let_def split_beta nai_process_paid_order nai_update_cart
      nai_add_balance split: option.splits)

lemma nai_close_cart:
  "no_active_invoice d \<Longrightarrow> no_active_invoice (fst (close_cart chan d))"
  by (simp add: close_cart_def Let_def nai_update_cart nai_add_balance nai_restore_stock
      split: option.splits)

lemma nai_complete_crypto_order:
  "no_active_invoice d \<Longrightarrow> no_active_invoice (fst (complete_crypto_order e cid d))"
  by (simp add: complete_crypto_order_def nai_process_paid_order split: option.splits)

lemma nai_process_webhook_payment:
  "no_active_invoice d \<Longrightarrow> no_active_invoice (fst (process_webhook_payment e cid st d))"
  by (simp add: process_webhook_payment_def nai_process_paid_order nai_cancel_invoice
      split: option.splits)

lemma nai_poll_cart:
  "no_active_invoice d \<Longrightarrow> no_active_invoice (fst (poll_cart e c d))"
  by (simp add: poll_cart_def nai_process_paid_order nai_cancel_invoice split: option.splits)

lemma nai_poll_loop:
  "no_active_invoice d \<Longrightarrow> no_active_invoice (fst (poll_loop e rows d))"
  by (induction rows arbitrary: d) (simp_all add: split_beta Let_def nai_poll_cart)

lemma nai_check_pending_payments:
  "no_active_invoice d \<Longrightarrow> no_active_invoice (fst (check_pending_payments e d))"
  by (simp add: check_pending_payments_def nai_poll_loop)

lemma nai_tickets:
  "no_active_invoice (fst (open_ticket e uid d)) = no_active_invoice d"
  "no_active_invoice (fst (close_ticket chan d)) = no_active_invoice d"
  "no_active_invoice (fst (delete_ticket chan d)) = no_active_invoice d"
  "no_active_invoice (fst (purge_closed_tickets d)) = no_active_invoice d"
  by (simp_all add: open_ticket_def close_ticket_def delete_ticket_def purge_closed_tickets_def
      no_active_invoice_def split: option.splits)

lemma nai_step: "no_active_invoice d \<Longrightarrow> no_active_invoice (fst (step e a d))"
  by (cases a)
     (simp_all add: nai_cancel_transaction nai_coin_select nai_confirm_payment nai_cancel_payment
        nai_crypto_checkout nai_handle_checkout nai_final_close_cart nai_delete_cart
        nai_handle_cart_action nai_apply_credit checkout_def nai_close_cart
        nai_complete_crypto_order nai_check_pending_payments nai_process_webhook_payment
        nai_purge_closed_carts nai_wipe_all_carts nai_tickets)

lemma nai_run: "no_active_invoice d \<Longrightarrow> no_active_invoice (run tr d)"
proof (induction tr arbitrary: d)
  case Nil
  then show ?case by simp
next
  case (Cons a tr)
  obtain e act where a: "a = (e, act)" by (cases a)
  from Cons.prems have "no_active_invoice (fst (step e act d))" by (rule nai_step)
  then show ?case unfolding a by (simp add: Cons.IH)
qed


lemma active_rows_without_invoice:
  assumes "no_active_invoice d" and "map status (carts d) = [Active]"
  shows "map invoice_message_id (carts d) = [None]"
proof -
  from assms(2) obtain c where c: "carts d = [c]" and s: "status c = Active"
    by (auto simp: map_eq_Cons_conv)
  with assms(1) have "invoice_message_id c = None"
    by (simp add: no_active_invoice_def)
  with c show ?thesis by simp
qed

text \<open>
  C4. In every store that a run of the operations reaches from the empty store, no cart holds an
  invoice reference while its status is \<^verbatim>\<open>active\<close>; every single operation, in any world and
  from any store with that property, keeps it; and the one transition that sets a cart back to
  \<^verbatim>\<open>active\<close>, \<^const>\<open>cancel_invoice\<close>, clears the invoice reference of the cart in the same write.
  Operations are taken one after the other, each as a whole.
\<close>

theorem no_invoice_while_active:
  "no_active_invoice (run tr empty_db)
   \<and> (no_active_invoice d \<longrightarrow> no_active_invoice (fst (step e a d)))
   \<and> (\<forall>r \<in> set (carts (fst (cancel_invoice c reason d))).
         truthy_id (invoice_message_id c) \<and> cart_id r = cart_id c
         \<longrightarrow> status r = Active \<and> invoice_message_id r = None)"
proof (intro conjI)
  have "no_active_invoice empty_db"
    by (simp add: no_active_invoice_def empty_db_def)
  then show "no_active_invoice (run tr empty_db)" by (rule nai_run)
  show "no_active_invoice d \<longrightarrow> no_active_invoice (fst (step e a d))"
    by (simp add: nai_step)
  show "\<forall>r \<in> set (carts (fst (cancel_invoice c reason d))).
         truthy_id (invoice_message_id c) \<and> cart_id r = cart_id c
         \<longrightarrow> status r = Active \<and> invoice_message_id r = None"
    by (auto simp: cancel_invoice_def update_cart_def)
qed

theorem no_invoice_while_active_witness:
  "map status (carts pending_db) = [PendingPayment]
   \<and> map invoice_message_id (carts pending_db) = [Some 920]
   \<and> map status (carts (fst (step shop_env (CancelTransaction 1) pending_db))) = [Active]
   \<and> map invoice_message_id (carts (fst (step shop_env (CancelTransaction 1) pending_db))) = [None]
   \<and> map status
        (carts (run [(shop_env, CartAction 7 100 1 True), (shop_env, HandleCheckout 910 PayPal),
                     (shop_env, CancelTransaction 1)] empty_db)) = [Active]
   \<and> map invoice_message_id
        (carts (run [(shop_env, CartAction 7 100 1 True), (shop_env, HandleCheckout 910 PayPal),
                     (shop_env, CancelTransaction 1)] empty_db)) = [None]"
proof -
  let ?tr = "[(shop_env, CartAction 7 100 1 True), (shop_env, HandleCheckout 910 PayPal),
              (shop_env, CancelTransaction 1)]"
  have inv: "no_active_invoice pending_db"
    by (simp add: no_active_invoice_def pending_db_def pending_cart_def)
  have before: "map status (carts pending_db) = [PendingPayment]"
    "map invoice_message_id (carts pending_db) = [Some 920]"
    by (simp_all add: pending_db_def pending_cart_def)
  have s1: "map status (carts (fst (step shop_env (CancelTransaction 1) pending_db))) = [Active]"
    by code_simp
  have s2: "map status (carts (run ?tr empty_db)) = [Active]"
    by code_simp
  note w = no_invoice_while_active
    [of ?tr pending_db shop_env "CancelTransaction 1" pending_cart "''Your cart was modified.''"]
  from w inv have i1: "no_active_invoice (fst (step shop_env (CancelTransaction 1) pending_db))"
    by blast
  from w have i2: "no_active_invoice (run ?tr empty_db)"
    by blast
  from before s1 s2 active_rows_without_invoice [OF i1 s1] active_rows_without_invoice [OF i2 s2]
  show ?thesis by simp
qed

section \<open>Tickets\<close>

text \<open>The cart operations leave the tickets table alone; the four ticket operations keep the
  open tickets of different users.\<close>

lemma tickets_update_cart [simp]: "tickets (update_cart cid f d) = tickets d"
  by (simp add: update_cart_def)

lemma tickets_add_stock [simp]: "tickets (add_stock k n d) = tickets d"
  by (simp add: add_stock_def)

lemma tickets_add_balance [simp]: "tickets (add_balance u x d) = tickets d"
  by (simp add: add_balance_def)

lemma tickets_add_lifetime_spent [simp]: "tickets (add_lifetime_spent u x d) = tickets d"
  by (simp add: add_lifetime_spent_def split: option.splits)

lemma tickets_log_purchases [simp]: "tickets (log_purchases c d) = tickets d"
  by (simp add: log_purchases_def)

lemma tickets_restore_stock [simp]: "tickets (restore_stock cart d) = tickets d"
  by (induction cart arbitrary: d) auto

lemma tickets_insert_cart [simp]: "tickets (snd (insert_cart uid t d)) = tickets d"
  by (simp add: insert_cart_def)

lemma tickets_cancel_invoice [simp]: "tickets (fst (cancel_invoice c reason d)) = tickets d"
  by (simp add: cancel_invoice_def)

lemma tickets_process_paid_order [simp]: "tickets (fst (process_paid_order c x d)) = tickets d"
  by (simp add: process_paid_order_def Let_def)

lemma tickets_poll_cart [simp]: "tickets (fst (poll_cart e c d)) = tickets d"
  by (simp add: poll_cart_def split: option.splits)

lemma tickets_poll_loop [simp]: "tickets (fst (poll_loop e rows d)) = tickets d"
  by (induction rows arbitrary: d) (simp_all add: split_beta Let_def)

lemma tickets_handle_cart_action:
  "tickets (fst (handle_cart_action e uid msg qty add d)) = tickets d"
  by (simp add: handle_cart_action_def Let_def split_beta split: option.splits)

lemma tickets_handle_checkout:
  "tickets (fst (handle_checkout e chan meth d)) = tickets d"
  by (simp add: handle_checkout_def Let_def split_beta split: option.splits)

lemma tickets_cart_step:
  "tickets (fst (cancel_transaction e cid d)) = tickets d"
  "tickets (fst (coin_select e c tp coin d)) = tickets d"
  "tickets (fst (confirm_payment cid d)) = tickets d"
  "tickets (fst (cancel_payment cid d)) = tickets d"
  "tickets (fst (crypto_checkout e chan d)) = tickets d"
  "tickets (fst (final_close_cart chan d)) = tickets d"
  "tickets (fst (delete_cart chan d)) = tickets d"
  "tickets (fst (apply_credit uid chan amt d)) = tickets d"
  "tickets (fst (checkout chan d)) = tickets d"
  "tickets (fst (close_cart chan d)) = tickets d"
  "tickets (fst (complete_crypto_order e cid d)) = tickets d"
  "tickets (fst (check_pending_payments e d)) = tickets d"
  "tickets (fst (process_webhook_payment e cid st d)) = tickets d"
  "tickets (fst (purge_closed_carts d)) = tickets d"
  "tickets (fst (wipe_all_carts d)) = tickets d"
  by (simp_all add: cancel_transaction_def coin_select_def confirm_payment_def cancel_payment_def
      crypto_checkout_def final_close_cart_def delete_cart_def apply_credit_def checkout_def
      close_cart_def complete_crypto_order_def check_pending_payments_def
      process_webhook_payment_def purge_closed_carts_def wipe_all_carts_def
      Let_def split_beta split: option.splits)

lemma oot_tickets_eq: "tickets d' = tickets d \<Longrightarrow> one_open_ticket d \<Longrightarrow> one_open_ticket d'"
  by (simp add: one_open_ticket_def)

lemma open_ticket_of_None:
  "open_ticket_of uid d = None \<Longrightarrow>
   uid \<notin> ticket_user_id ` set (filter (\<lambda>t. ticket_status t = TicketOpen) (tickets d))"
  by (auto simp: open_ticket_of_def find_None_iff)

lemma oot_open_ticket: "one_open_ticket d \<Longrightarrow> one_open_ticket (fst (open_ticket e uid d))"
  by (auto simp: open_ticket_def one_open_ticket_def dest: open_ticket_of_None
      split: option.splits)

lemma open_after_close:
  "filter (\<lambda>t. ticket_status t = TicketOpen)
     (map (\<lambda>t. if ticket_channel_id t = chan then t\<lparr>ticket_status := TicketClosed\<rparr> else t) ts)
   = filter (\<lambda>t. ticket_channel_id t \<noteq> chan) (filter (\<lambda>t. ticket_status t = TicketOpen) ts)"
  by (induction ts) auto

lemma open_after_delete:
  "filter (\<lambda>t. ticket_status t = TicketOpen) (filter (\<lambda>t. ticket_channel_id t \<noteq> chan) ts)
   = filter (\<lambda>t. ticket_channel_id t \<noteq> chan) (filter (\<lambda>t. ticket_status t = TicketOpen) ts)"
  by (induction ts) auto

lemma oot_close_ticket:
  assumes "one_open_ticket d"
  shows "one_open_ticket (fst (close_ticket chan d))"
proof -
  have "tickets (fst (close_ticket chan d)) =
        map (\<lambda>t. if ticket_channel_id t = chan then t\<lparr>ticket_status := TicketClosed\<rparr> else t)
          (tickets d)"
    by (simp add: close_ticket_def)
  then have "one_open_ticket (fst (close_ticket chan d)) =
        distinct (map ticket_user_id
          (filter (\<lambda>t. ticket_channel_id t \<noteq> chan)
             (filter (\<lambda>t. ticket_status t = TicketOpen) (tickets d))))"
    by (simp only: one_open_ticket_def open_after_close)
  moreover have "distinct (map ticket_user_id
          (filter (\<lambda>t. ticket_channel_id t \<noteq> chan)
             (filter (\<lambda>t. ticket_status t = TicketOpen) (tickets d))))"
    using assms unfolding one_open_ticket_def by (rule distinct_map_filter)
  ultimately show ?thesis by blast
qed

lemma oot_delete_ticket:
  assumes "one_open_ticket d"
  shows "one_open_ticket (fst (delete_ticket chan d))"
proof -
  have "tickets (fst (delete_ticket chan d)) =
        filter (\<lambda>t. ticket_channel_id t \<noteq> chan) (tickets d)"
    by (simp add: delete_ticket_def)
  then have "one_open_ticket (fst (delete_ticket chan d)) =
        distinct (map ticket_user_id
          (filter (\<lambda>t. ticket_channel_id t \<noteq> chan)
             (filter (\<lambda>t. ticket_status t = TicketOpen) (tickets d))))"
    by (simp only: one_open_ticket_def open_after_delete)
  moreover have "distinct (map ticket_user_id
          (filter (\<lambda>t. ticket_channel_id t \<noteq> chan)
             (filter (\<lambda>t. ticket_status t = TicketOpen) (tickets d))))"
    using assms unfolding one_open_ticket_def by (rule distinct_map_filter)
  ultimately show ?thesis by blast
qed

lemma oot_purge_closed_tickets:
  "one_open_ticket d \<Longrightarrow> one_open_ticket (fst (purge_closed_tickets d))"
proof -
  have "filter (\<lambda>t. ticket_status t = TicketOpen) (filter (\<lambda>t. ticket_status t \<noteq> TicketClosed) ts)
      = filter (\<lambda>t. ticket_status t = TicketOpen) ts"
    for ts :: "ticket_row list"
    by (induction ts) auto
  then show "one_open_ticket d \<Longrightarrow> one_open_ticket (fst (purge_closed_tickets d))"
    by (simp add: purge_closed_tickets_def one_open_ticket_def)
qed

lemma oot_step: "one_open_ticket d \<Longrightarrow> one_open_ticket (fst (step e a d))"
  by (cases a)
     (simp_all add: oot_open_ticket oot_close_ticket oot_delete_ticket oot_purge_closed_tickets
        oot_tickets_eq [OF tickets_handle_cart_action] oot_tickets_eq [OF tickets_handle_checkout]
        tickets_cart_step [THEN oot_tickets_eq])

lemma oot_run: "one_open_ticket d \<Longrightarrow> one_open_ticket (run tr d)"
proof (induction tr arbitrary: d)
  case Nil
  then show ?case by simp
next
  case (Cons a tr)
  obtain e act where a: "a = (e, act)" by (cases a)
  from Cons.prems have "one_open_ticket (fst (step e act d))" by (rule oot_step)
  then show ?case unfolding a by (simp add: Cons.IH)
qed

text \<open>
  C10. While a user has a ticket with status \<^verbatim>\<open>open\<close>, \<^const>\<open>open_ticket\<close> answers that a ticket is
  already open and leaves the store as it is: no row is inserted (and the handler returns before
  it creates a channel). So every operation keeps the users of the open tickets pairwise
  different, and in every store that a run reaches from the empty store a user has at most one
  open ticket. Operations are taken one after the other, each as a whole.
\<close>

theorem open_ticket_refuses_second:
  "(open_ticket_of uid d \<noteq> None \<longrightarrow> open_ticket e uid d = (d, [AlreadyOpenTicket]))
   \<and> (one_open_ticket d \<longrightarrow> one_open_ticket (fst (step e' a d)))
   \<and> one_open_ticket (run tr empty_db)"
proof (intro conjI)
  show "open_ticket_of uid d \<noteq> None \<longrightarrow> open_ticket e uid d = (d, [AlreadyOpenTicket])"
    by (auto simp: open_ticket_def)
  show "one_open_ticket d \<longrightarrow> one_open_ticket (fst (step e' a d))"
    by (simp add: oot_step)
  have "one_open_ticket empty_db" by (simp add: one_open_ticket_def empty_db_def)
  then show "one_open_ticket (run tr empty_db)" by (rule oot_run)
qed

theorem open_ticket_refuses_second_witness:
  "(let d = run [(shop_env, OpenTicket 7)] empty_db
    in map ticket_user_id (tickets d) = [7]
       \<and> map ticket_status (tickets d) = [TicketOpen]
       \<and> open_ticket_of 7 d \<noteq> None
       \<and> one_open_ticket d
       \<and> open_ticket shop_env 7 d = (d, [AlreadyOpenTicket])
       \<and> one_open_ticket (fst (step shop_env (OpenTicket 8) d))
       \<and> map ticket_user_id (tickets (fst (step shop_env (OpenTicket 8) d))) = [7, 8])"
proof -
  define d where "d = run [(shop_env, OpenTicket 7)] empty_db"
  have t: "map ticket_user_id (tickets d) = [7]" "map ticket_status (tickets d) = [TicketOpen]"
    "map ticket_user_id (tickets (fst (step shop_env (OpenTicket 8) d))) = [7, 8]"
    unfolding d_def by code_simp+
  have o: "open_ticket_of 7 d \<noteq> None"
    unfolding d_def by code_simp
  note w = open_ticket_refuses_second
    [of 7 d shop_env shop_env "OpenTicket 8" "[(shop_env, OpenTicket 7)]"]
  from w o have r: "open_ticket shop_env 7 d = (d, [AlreadyOpenTicket])" by blast
  from w have i: "one_open_ticket d" unfolding d_def by blast
  with w have s: "one_open_ticket (fst (step shop_env (OpenTicket 8) d))" by blast
  from t o r i s show ?thesis
    unfolding d_def [symmetric] Let_def by blast
qed

end
